theory Spec2Isabelle
  imports Main
begin

section \<open>Torneo API: the schema, the SQL statements and the request handlers\<close>

text \<open>
  The program is \<^verbatim>\<open>main.py\<close>: a schema of seven tables (the \<^verbatim>\<open>CREATE TABLE\<close> script of
  \<^verbatim>\<open>initialize_database\<close>) and one handler per route, each running one parameterised SQL
  statement on a per-request connection (\<^verbatim>\<open>get_db\<close>).

  The embedding has three layers, in the order of the source:
  \<^item> the Pydantic classes as records (a subclass is a record extension);
  \<^item> the tables as lists of row records in rowid order, and every SQL statement the
    handlers execute as a function on the database, returning either
    \<^verbatim>\<open>sqlite3.IntegrityError\<close> or the new database with \<^verbatim>\<open>lastrowid\<close> / \<^verbatim>\<open>rowcount\<close>; the
    constraints checked are exactly those declared in the \<^verbatim>\<open>CREATE\<close> script (NOT NULL,
    UNIQUE, CHECK, FOREIGN KEY with its ON DELETE action, the partial unique index);
  \<^item> the handlers, on a connection that holds the committed database and the
    uncommitted one; \<^verbatim>\<open>commit\<close> copies the latter into the former and \<^verbatim>\<open>close\<close> drops it.

  Boundary of the model. Python integers are \<^typ>\<open>int\<close> and text is \<^typ>\<open>string\<close>; values are
  stored as they are bound, that is, integers are taken to fit SQLite's 64-bit INTEGER and
  text bound to a DATETIME column is taken not to read as a number. The handlers receive
  payloads that FastAPI has already built from the request (the 422 shape validation
  happens before a handler runs and never touches the database). \<^verbatim>\<open>CURRENT_TIMESTAMP\<close> is
  the parameter \<open>now\<close>. The \<^verbatim>\<open>detail\<close> text of an \<^verbatim>\<open>HTTPException\<close> is left out.
\<close>

subsection \<open>Pydantic schemas\<close>

record UsuarioBase =
  Usuario_nombre :: string
  Usuario_nickname :: string
  Usuario_email :: string

record UsuarioCreate = UsuarioBase +
  Usuario_pwd_hash :: string

record Usuario = UsuarioBase +
  Usuario_id :: int
  Usuario_fecha_reg :: string

record EquipoBase =
  Equipo_nombre :: string
  Equipo_id_capitan :: int

type_synonym EquipoCreate = EquipoBase

record Equipo = EquipoBase +
  Equipo_id :: int

record MiembroBase =
  Miembro_id_equipo :: int
  Miembro_id_usuario :: int
  Miembro_rol :: string

type_synonym MiembroCreate = MiembroBase

record Miembro = MiembroBase +
  Miembro_id :: int

record TorneoBase =
  Torneo_nombre :: string
  Torneo_descripcion :: "string option"
  Torneo_fecha_inicio :: string
  Torneo_fecha_fin :: string
  Torneo_max_equipos :: int
  Torneo_estado :: "string option"

type_synonym TorneoCreate = TorneoBase

record Torneo = TorneoBase +
  Torneo_id :: int

record InscripcionBase =
  Inscripcion_id_equipo :: int
  Inscripcion_id_torneo :: int

type_synonym InscripcionCreate = InscripcionBase

record Inscripcion = InscripcionBase +
  Inscripcion_id :: int
  Inscripcion_fecha_inscripcion :: string

record PagoBase =
  Pago_id_equipo :: int
  Pago_id_torneo :: int
  Pago_monto_cent :: int
  Pago_estado :: "string option"

type_synonym PagoCreate = PagoBase

record Pago = PagoBase +
  Pago_id :: int
  Pago_fecha_pago :: string

record PartidoBase =
  Partido_id_torneo :: int
  Partido_equipo_local :: int
  Partido_equipo_visitante :: int
  Partido_fecha :: string
  Partido_resultado_local :: "int option"
  Partido_resultado_visitante :: "int option"

type_synonym PartidoCreate = PartidoBase

record Partido = PartidoBase +
  Partido_id :: int

subsection \<open>Tables\<close>

text \<open>One record per table, one field per column of its \<^verbatim>\<open>CREATE TABLE\<close>. A column declared
  NOT NULL has a plain type, a nullable one an option type.\<close>

record usuarios_row =
  usuarios_id :: int
  usuarios_nombre :: string
  usuarios_nickname :: string
  usuarios_email :: string
  usuarios_pwd_hash :: string
  usuarios_fecha_reg :: string

record equipos_row =
  equipos_id :: int
  equipos_nombre :: string
  equipos_id_capitan :: int

record miembros_equipo_row =
  miembros_equipo_id :: int
  miembros_equipo_id_equipo :: int
  miembros_equipo_id_usuario :: int
  miembros_equipo_rol :: string

record torneos_row =
  torneos_id :: int
  torneos_nombre :: string
  torneos_descripcion :: "string option"
  torneos_fecha_inicio :: string
  torneos_fecha_fin :: string
  torneos_max_equipos :: int
  torneos_estado :: string

record inscripciones_row =
  inscripciones_id :: int
  inscripciones_id_equipo :: int
  inscripciones_id_torneo :: int
  inscripciones_fecha_inscripcion :: string

record pagos_row =
  pagos_id :: int
  pagos_id_equipo :: int
  pagos_id_torneo :: int
  pagos_monto_cent :: int
  pagos_estado :: string
  pagos_fecha_pago :: string

record partidos_row =
  partidos_id :: int
  partidos_id_torneo :: int
  partidos_equipo_local :: int
  partidos_equipo_visitante :: int
  partidos_fecha :: string
  partidos_resultado_local :: "int option"
  partidos_resultado_visitante :: "int option"

text \<open>The database file: the seven tables and, for the AUTOINCREMENT keys, the table
  \<^verbatim>\<open>sqlite_sequence\<close> with the largest rowid each table has ever held.\<close>

record database =
  usuarios :: "usuarios_row list"
  equipos :: "equipos_row list"
  miembros_equipo :: "miembros_equipo_row list"
  torneos :: "torneos_row list"
  inscripciones :: "inscripciones_row list"
  pagos :: "pagos_row list"
  partidos :: "partidos_row list"
  seq_usuarios :: int
  seq_equipos :: int
  seq_miembros_equipo :: int
  seq_torneos :: int
  seq_inscripciones :: int
  seq_pagos :: int
  seq_partidos :: int

text \<open>\<^verbatim>\<open>initialize_database\<close>: the script creates the tables empty.\<close>

definition initialize_database :: database where
  "initialize_database =
     \<lparr>usuarios = [], equipos = [], miembros_equipo = [], torneos = [], inscripciones = [],
      pagos = [], partidos = [],
      seq_usuarios = 0, seq_equipos = 0, seq_miembros_equipo = 0, seq_torneos = 0,
      seq_inscripciones = 0, seq_pagos = 0, seq_partidos = 0\<rparr>"

subsection \<open>Exceptions\<close>

text \<open>\<^verbatim>\<open>sqlite3.IntegrityError\<close> is what the engine raises on any constraint violation;
  \<^verbatim>\<open>HTTPException\<close> carries its status code; \<^verbatim>\<open>TypeError\<close> is what \<^verbatim>\<open>Model(**row)\<close> raises
  when \<^verbatim>\<open>row\<close> is \<^verbatim>\<open>None\<close>. An exception other than \<^verbatim>\<open>HTTPException\<close> that leaves a handler
  is the framework's unstructured failure.\<close>

datatype exn = IntegrityError | TypeError | HTTPException nat

abbreviation HTTP_400_BAD_REQUEST :: nat where "HTTP_400_BAD_REQUEST \<equiv> 400"
abbreviation HTTP_404_NOT_FOUND :: nat where "HTTP_404_NOT_FOUND \<equiv> 404"

subsection \<open>SQL statements\<close>

text \<open>AUTOINCREMENT: the new rowid is one more than the largest rowid the table has ever
  held (the larger of \<^verbatim>\<open>sqlite_sequence\<close> and the rowids present).\<close>

definition next_rowid :: "int \<Rightarrow> int list \<Rightarrow> int" where
  "next_rowid seq ids = fold max ids seq + 1"

text \<open>\<^verbatim>\<open>INSERT INTO usuarios (nombre, nickname, email, pwd_hash) VALUES (?, ?, ?, ?)\<close>;
  \<^verbatim>\<open>email\<close> is UNIQUE, \<^verbatim>\<open>fecha_reg\<close> defaults to \<^verbatim>\<open>CURRENT_TIMESTAMP\<close>.\<close>

definition INSERT_usuarios ::
  "string \<Rightarrow> string \<Rightarrow> string \<Rightarrow> string \<Rightarrow> string \<Rightarrow> database \<Rightarrow> exn + database \<times> int" where
  "INSERT_usuarios now nombre nickname email pwd_hash db =
     (if \<exists>r \<in> set (usuarios db). usuarios_email r = email then Inl IntegrityError
      else
        let rowid = next_rowid (seq_usuarios db) (map usuarios_id (usuarios db)) in
        Inr (db\<lparr>usuarios := usuarios db @
                   [\<lparr>usuarios_id = rowid, usuarios_nombre = nombre, usuarios_nickname = nickname,
                     usuarios_email = email, usuarios_pwd_hash = pwd_hash,
                     usuarios_fecha_reg = now\<rparr>],
                 seq_usuarios := rowid\<rparr>, rowid))"

text \<open>\<^verbatim>\<open>UPDATE usuarios SET nombre=?, nickname=?, email=? WHERE id=?\<close>\<close>

definition UPDATE_usuarios ::
  "string \<Rightarrow> string \<Rightarrow> string \<Rightarrow> int \<Rightarrow> database \<Rightarrow> exn + database \<times> nat" where
  "UPDATE_usuarios nombre nickname email i db =
     (if \<not> (\<exists>r \<in> set (usuarios db). usuarios_id r = i) then Inr (db, 0)
      else if \<exists>r \<in> set (usuarios db). usuarios_id r \<noteq> i \<and> usuarios_email r = email
      then Inl IntegrityError
      else Inr (db\<lparr>usuarios :=
                    map (\<lambda>r. if usuarios_id r = i
                              then r\<lparr>usuarios_nombre := nombre, usuarios_nickname := nickname,
                                     usuarios_email := email\<rparr>
                              else r) (usuarios db)\<rparr>,
                length (filter (\<lambda>r. usuarios_id r = i) (usuarios db))))"

text \<open>\<^verbatim>\<open>DELETE FROM usuarios WHERE id = ?\<close>; \<^verbatim>\<open>equipos.id_capitan\<close> is ON DELETE RESTRICT,
  \<^verbatim>\<open>miembros_equipo.id_usuario\<close> is ON DELETE CASCADE.\<close>

definition DELETE_usuarios :: "int \<Rightarrow> database \<Rightarrow> exn + database \<times> nat" where
  "DELETE_usuarios i db =
     (if \<not> (\<exists>r \<in> set (usuarios db). usuarios_id r = i) then Inr (db, 0)
      else if \<exists>e \<in> set (equipos db). equipos_id_capitan e = i then Inl IntegrityError
      else Inr (db\<lparr>usuarios := filter (\<lambda>r. usuarios_id r \<noteq> i) (usuarios db),
                   miembros_equipo :=
                     filter (\<lambda>m. miembros_equipo_id_usuario m \<noteq> i) (miembros_equipo db)\<rparr>,
                length (filter (\<lambda>r. usuarios_id r = i) (usuarios db))))"

text \<open>\<^verbatim>\<open>INSERT INTO equipos (nombre, id_capitan) VALUES (?, ?)\<close>; \<^verbatim>\<open>nombre\<close> is UNIQUE,
  \<^verbatim>\<open>id_capitan\<close> references \<^verbatim>\<open>usuarios(id)\<close>.\<close>

definition INSERT_equipos :: "string \<Rightarrow> int \<Rightarrow> database \<Rightarrow> exn + database \<times> int" where
  "INSERT_equipos nombre id_capitan db =
     (if (\<exists>e \<in> set (equipos db). equipos_nombre e = nombre)
         \<or> \<not> (\<exists>u \<in> set (usuarios db). usuarios_id u = id_capitan)
      then Inl IntegrityError
      else
        let rowid = next_rowid (seq_equipos db) (map equipos_id (equipos db)) in
        Inr (db\<lparr>equipos := equipos db @
                   [\<lparr>equipos_id = rowid, equipos_nombre = nombre,
                     equipos_id_capitan = id_capitan\<rparr>],
                 seq_equipos := rowid\<rparr>, rowid))"

text \<open>\<^verbatim>\<open>UPDATE equipos SET nombre=?, id_capitan=? WHERE id=?\<close>\<close>

definition UPDATE_equipos :: "string \<Rightarrow> int \<Rightarrow> int \<Rightarrow> database \<Rightarrow> exn + database \<times> nat" where
  "UPDATE_equipos nombre id_capitan i db =
     (if \<not> (\<exists>e \<in> set (equipos db). equipos_id e = i) then Inr (db, 0)
      else if (\<exists>e \<in> set (equipos db). equipos_id e \<noteq> i \<and> equipos_nombre e = nombre)
              \<or> \<not> (\<exists>u \<in> set (usuarios db). usuarios_id u = id_capitan)
      then Inl IntegrityError
      else Inr (db\<lparr>equipos :=
                    map (\<lambda>e. if equipos_id e = i
                              then e\<lparr>equipos_nombre := nombre, equipos_id_capitan := id_capitan\<rparr>
                              else e) (equipos db)\<rparr>,
                length (filter (\<lambda>e. equipos_id e = i) (equipos db))))"

text \<open>\<^verbatim>\<open>DELETE FROM equipos WHERE id = ?\<close>; \<^verbatim>\<open>partidos.equipo_local\<close> and
  \<^verbatim>\<open>partidos.equipo_visitante\<close> are ON DELETE RESTRICT; \<^verbatim>\<open>miembros_equipo\<close>,
  \<^verbatim>\<open>inscripciones\<close> and \<^verbatim>\<open>pagos\<close> reference the team ON DELETE CASCADE.\<close>

definition DELETE_equipos :: "int \<Rightarrow> database \<Rightarrow> exn + database \<times> nat" where
  "DELETE_equipos i db =
     (if \<not> (\<exists>e \<in> set (equipos db). equipos_id e = i) then Inr (db, 0)
      else if \<exists>p \<in> set (partidos db).
                 partidos_equipo_local p = i \<or> partidos_equipo_visitante p = i
      then Inl IntegrityError
      else Inr (db\<lparr>equipos := filter (\<lambda>e. equipos_id e \<noteq> i) (equipos db),
                   miembros_equipo :=
                     filter (\<lambda>m. miembros_equipo_id_equipo m \<noteq> i) (miembros_equipo db),
                   inscripciones :=
                     filter (\<lambda>x. inscripciones_id_equipo x \<noteq> i) (inscripciones db),
                   pagos := filter (\<lambda>p. pagos_id_equipo p \<noteq> i) (pagos db)\<rparr>,
                length (filter (\<lambda>e. equipos_id e = i) (equipos db))))"

text \<open>\<^verbatim>\<open>INSERT INTO miembros_equipo (id_equipo, id_usuario, rol) VALUES (?, ?, ?)\<close>;
  CHECK on \<^verbatim>\<open>rol\<close>, UNIQUE(id_equipo, id_usuario), both foreign keys, and the partial
  unique index \<^verbatim>\<open>idx_unq_capitan_equipo\<close> on \<^verbatim>\<open>id_equipo WHERE rol = 'capitan'\<close>.\<close>

definition INSERT_miembros_equipo ::
  "int \<Rightarrow> int \<Rightarrow> string \<Rightarrow> database \<Rightarrow> exn + database \<times> int" where
  "INSERT_miembros_equipo id_equipo id_usuario rol db =
     (if rol \<notin> set [''jugador'', ''capitan'', ''suplente'']
         \<or> (\<exists>m \<in> set (miembros_equipo db).
               miembros_equipo_id_equipo m = id_equipo \<and> miembros_equipo_id_usuario m = id_usuario)
         \<or> \<not> (\<exists>e \<in> set (equipos db). equipos_id e = id_equipo)
         \<or> \<not> (\<exists>u \<in> set (usuarios db). usuarios_id u = id_usuario)
         \<or> (rol = ''capitan'' \<and>
             (\<exists>m \<in> set (miembros_equipo db).
                miembros_equipo_rol m = ''capitan'' \<and> miembros_equipo_id_equipo m = id_equipo))
      then Inl IntegrityError
      else
        let rowid = next_rowid (seq_miembros_equipo db)
                      (map miembros_equipo_id (miembros_equipo db)) in
        Inr (db\<lparr>miembros_equipo := miembros_equipo db @
                   [\<lparr>miembros_equipo_id = rowid, miembros_equipo_id_equipo = id_equipo,
                     miembros_equipo_id_usuario = id_usuario, miembros_equipo_rol = rol\<rparr>],
                 seq_miembros_equipo := rowid\<rparr>, rowid))"

text \<open>\<^verbatim>\<open>DELETE FROM miembros_equipo WHERE id = ?\<close>\<close>

definition DELETE_miembros_equipo :: "int \<Rightarrow> database \<Rightarrow> exn + database \<times> nat" where
  "DELETE_miembros_equipo i db =
     Inr (db\<lparr>miembros_equipo :=
               filter (\<lambda>m. miembros_equipo_id m \<noteq> i) (miembros_equipo db)\<rparr>,
          length (filter (\<lambda>m. miembros_equipo_id m = i) (miembros_equipo db)))"

text \<open>\<^verbatim>\<open>INSERT INTO torneos (nombre, descripcion, fecha_inicio, fecha_fin, max_equipos, estado)
  VALUES (?, ?, ?, ?, ?, ?)\<close>; \<^verbatim>\<open>estado\<close> is NOT NULL (the payload's field is
  \<^verbatim>\<open>Optional[str]\<close>) with a CHECK on its value, and \<^verbatim>\<open>max_equipos\<close> has CHECK \<^verbatim>\<open>> 0\<close>.\<close>

definition torneos_CHECK :: "int \<Rightarrow> string \<Rightarrow> bool" where
  "torneos_CHECK max_equipos estado =
     (0 < max_equipos \<and> estado \<in> set [''programado'', ''en_curso'', ''finalizado''])"

definition INSERT_torneos ::
  "string \<Rightarrow> string option \<Rightarrow> string \<Rightarrow> string \<Rightarrow> int \<Rightarrow> string option \<Rightarrow> database
     \<Rightarrow> exn + database \<times> int" where
  "INSERT_torneos nombre descripcion fecha_inicio fecha_fin max_equipos estado db =
     (case estado of
        None \<Rightarrow> Inl IntegrityError
      | Some s \<Rightarrow>
          if \<not> torneos_CHECK max_equipos s then Inl IntegrityError
          else
            let rowid = next_rowid (seq_torneos db) (map torneos_id (torneos db)) in
            Inr (db\<lparr>torneos := torneos db @
                       [\<lparr>torneos_id = rowid, torneos_nombre = nombre,
                         torneos_descripcion = descripcion, torneos_fecha_inicio = fecha_inicio,
                         torneos_fecha_fin = fecha_fin, torneos_max_equipos = max_equipos,
                         torneos_estado = s\<rparr>],
                     seq_torneos := rowid\<rparr>, rowid))"

text \<open>\<^verbatim>\<open>UPDATE torneos SET nombre=?, descripcion=?, fecha_inicio=?, fecha_fin=?,
  max_equipos=?, estado=? WHERE id=?\<close>\<close>

definition UPDATE_torneos ::
  "string \<Rightarrow> string option \<Rightarrow> string \<Rightarrow> string \<Rightarrow> int \<Rightarrow> string option \<Rightarrow> int \<Rightarrow> database
     \<Rightarrow> exn + database \<times> nat" where
  "UPDATE_torneos nombre descripcion fecha_inicio fecha_fin max_equipos estado i db =
     (if \<not> (\<exists>t \<in> set (torneos db). torneos_id t = i) then Inr (db, 0)
      else
        (case estado of
           None \<Rightarrow> Inl IntegrityError
         | Some s \<Rightarrow>
             if \<not> torneos_CHECK max_equipos s then Inl IntegrityError
             else Inr (db\<lparr>torneos :=
                           map (\<lambda>t. if torneos_id t = i
                                     then t\<lparr>torneos_nombre := nombre,
                                            torneos_descripcion := descripcion,
                                            torneos_fecha_inicio := fecha_inicio,
                                            torneos_fecha_fin := fecha_fin,
                                            torneos_max_equipos := max_equipos,
                                            torneos_estado := s\<rparr>
                                     else t) (torneos db)\<rparr>,
                       length (filter (\<lambda>t. torneos_id t = i) (torneos db)))))"

text \<open>\<^verbatim>\<open>DELETE FROM torneos WHERE id = ?\<close>; \<^verbatim>\<open>inscripciones\<close>, \<^verbatim>\<open>pagos\<close> and \<^verbatim>\<open>partidos\<close>
  reference the tournament ON DELETE CASCADE, and no table references those three.\<close>

definition DELETE_torneos :: "int \<Rightarrow> database \<Rightarrow> exn + database \<times> nat" where
  "DELETE_torneos i db =
     (if \<not> (\<exists>t \<in> set (torneos db). torneos_id t = i) then Inr (db, 0)
      else Inr (db\<lparr>torneos := filter (\<lambda>t. torneos_id t \<noteq> i) (torneos db),
                   inscripciones :=
                     filter (\<lambda>x. inscripciones_id_torneo x \<noteq> i) (inscripciones db),
                   pagos := filter (\<lambda>p. pagos_id_torneo p \<noteq> i) (pagos db),
                   partidos := filter (\<lambda>p. partidos_id_torneo p \<noteq> i) (partidos db)\<rparr>,
                length (filter (\<lambda>t. torneos_id t = i) (torneos db))))"

text \<open>\<^verbatim>\<open>INSERT INTO inscripciones (id_equipo, id_torneo) VALUES (?, ?)\<close>;
  UNIQUE(id_equipo, id_torneo) and both foreign keys.\<close>

definition INSERT_inscripciones ::
  "string \<Rightarrow> int \<Rightarrow> int \<Rightarrow> database \<Rightarrow> exn + database \<times> int" where
  "INSERT_inscripciones now id_equipo id_torneo db =
     (if (\<exists>x \<in> set (inscripciones db).
            inscripciones_id_equipo x = id_equipo \<and> inscripciones_id_torneo x = id_torneo)
         \<or> \<not> (\<exists>e \<in> set (equipos db). equipos_id e = id_equipo)
         \<or> \<not> (\<exists>t \<in> set (torneos db). torneos_id t = id_torneo)
      then Inl IntegrityError
      else
        let rowid = next_rowid (seq_inscripciones db)
                      (map inscripciones_id (inscripciones db)) in
        Inr (db\<lparr>inscripciones := inscripciones db @
                   [\<lparr>inscripciones_id = rowid, inscripciones_id_equipo = id_equipo,
                     inscripciones_id_torneo = id_torneo,
                     inscripciones_fecha_inscripcion = now\<rparr>],
                 seq_inscripciones := rowid\<rparr>, rowid))"

text \<open>\<^verbatim>\<open>DELETE FROM inscripciones WHERE id = ?\<close>\<close>

definition DELETE_inscripciones :: "int \<Rightarrow> database \<Rightarrow> exn + database \<times> nat" where
  "DELETE_inscripciones i db =
     Inr (db\<lparr>inscripciones := filter (\<lambda>x. inscripciones_id x \<noteq> i) (inscripciones db)\<rparr>,
          length (filter (\<lambda>x. inscripciones_id x = i) (inscripciones db)))"

text \<open>\<^verbatim>\<open>INSERT INTO pagos (id_equipo, id_torneo, monto_cent, estado) VALUES (?, ?, ?, ?)\<close>;
  \<^verbatim>\<open>estado\<close> is NOT NULL with a CHECK on its value, \<^verbatim>\<open>monto_cent\<close> has CHECK \<^verbatim>\<open>>= 0\<close>,
  and both foreign keys.\<close>

definition INSERT_pagos ::
  "string \<Rightarrow> int \<Rightarrow> int \<Rightarrow> int \<Rightarrow> string option \<Rightarrow> database \<Rightarrow> exn + database \<times> int" where
  "INSERT_pagos now id_equipo id_torneo monto_cent estado db =
     (case estado of
        None \<Rightarrow> Inl IntegrityError
      | Some s \<Rightarrow>
          if monto_cent < 0
             \<or> s \<notin> set [''pendiente'', ''confirmado'']
             \<or> \<not> (\<exists>e \<in> set (equipos db). equipos_id e = id_equipo)
             \<or> \<not> (\<exists>t \<in> set (torneos db). torneos_id t = id_torneo)
          then Inl IntegrityError
          else
            let rowid = next_rowid (seq_pagos db) (map pagos_id (pagos db)) in
            Inr (db\<lparr>pagos := pagos db @
                       [\<lparr>pagos_id = rowid, pagos_id_equipo = id_equipo,
                         pagos_id_torneo = id_torneo, pagos_monto_cent = monto_cent,
                         pagos_estado = s, pagos_fecha_pago = now\<rparr>],
                     seq_pagos := rowid\<rparr>, rowid))"

text \<open>\<^verbatim>\<open>DELETE FROM pagos WHERE id = ?\<close>\<close>

definition DELETE_pagos :: "int \<Rightarrow> database \<Rightarrow> exn + database \<times> nat" where
  "DELETE_pagos i db =
     Inr (db\<lparr>pagos := filter (\<lambda>p. pagos_id p \<noteq> i) (pagos db)\<rparr>,
          length (filter (\<lambda>p. pagos_id p = i) (pagos db)))"

text \<open>\<^verbatim>\<open>INSERT INTO partidos (id_torneo, equipo_local, equipo_visitante, fecha,
  resultado_local, resultado_visitante) VALUES (?, ?, ?, ?, ?, ?)\<close>; the three foreign keys
  and CHECK(equipo_local <> equipo_visitante).\<close>

definition INSERT_partidos ::
  "int \<Rightarrow> int \<Rightarrow> int \<Rightarrow> string \<Rightarrow> int option \<Rightarrow> int option \<Rightarrow> database
     \<Rightarrow> exn + database \<times> int" where
  "INSERT_partidos id_torneo equipo_local equipo_visitante fecha resultado_local
       resultado_visitante db =
     (if equipo_local = equipo_visitante
         \<or> \<not> (\<exists>t \<in> set (torneos db). torneos_id t = id_torneo)
         \<or> \<not> (\<exists>e \<in> set (equipos db). equipos_id e = equipo_local)
         \<or> \<not> (\<exists>e \<in> set (equipos db). equipos_id e = equipo_visitante)
      then Inl IntegrityError
      else
        let rowid = next_rowid (seq_partidos db) (map partidos_id (partidos db)) in
        Inr (db\<lparr>partidos := partidos db @
                   [\<lparr>partidos_id = rowid, partidos_id_torneo = id_torneo,
                     partidos_equipo_local = equipo_local,
                     partidos_equipo_visitante = equipo_visitante, partidos_fecha = fecha,
                     partidos_resultado_local = resultado_local,
                     partidos_resultado_visitante = resultado_visitante\<rparr>],
                 seq_partidos := rowid\<rparr>, rowid))"

text \<open>\<^verbatim>\<open>DELETE FROM partidos WHERE id = ?\<close>\<close>

definition DELETE_partidos :: "int \<Rightarrow> database \<Rightarrow> exn + database \<times> nat" where
  "DELETE_partidos i db =
     Inr (db\<lparr>partidos := filter (\<lambda>p. partidos_id p \<noteq> i) (partidos db)\<rparr>,
          length (filter (\<lambda>p. partidos_id p = i) (partidos db)))"

text \<open>\<^verbatim>\<open>SELECT * FROM t WHERE id = ?\<close> followed by \<^verbatim>\<open>fetchone()\<close>: the first row with that
  id, or \<^verbatim>\<open>None\<close>. \<^verbatim>\<open>SELECT * FROM t\<close> followed by \<^verbatim>\<open>fetchall()\<close> is the table itself.\<close>

definition SELECT_usuarios_WHERE_id :: "int \<Rightarrow> database \<Rightarrow> usuarios_row option" where
  "SELECT_usuarios_WHERE_id i db = find (\<lambda>r. usuarios_id r = i) (usuarios db)"

definition SELECT_equipos_WHERE_id :: "int \<Rightarrow> database \<Rightarrow> equipos_row option" where
  "SELECT_equipos_WHERE_id i db = find (\<lambda>r. equipos_id r = i) (equipos db)"

definition SELECT_miembros_equipo_WHERE_id :: "int \<Rightarrow> database \<Rightarrow> miembros_equipo_row option" where
  "SELECT_miembros_equipo_WHERE_id i db =
     find (\<lambda>r. miembros_equipo_id r = i) (miembros_equipo db)"

definition SELECT_torneos_WHERE_id :: "int \<Rightarrow> database \<Rightarrow> torneos_row option" where
  "SELECT_torneos_WHERE_id i db = find (\<lambda>r. torneos_id r = i) (torneos db)"

definition SELECT_inscripciones_WHERE_id :: "int \<Rightarrow> database \<Rightarrow> inscripciones_row option" where
  "SELECT_inscripciones_WHERE_id i db = find (\<lambda>r. inscripciones_id r = i) (inscripciones db)"

definition SELECT_pagos_WHERE_id :: "int \<Rightarrow> database \<Rightarrow> pagos_row option" where
  "SELECT_pagos_WHERE_id i db = find (\<lambda>r. pagos_id r = i) (pagos db)"

definition SELECT_partidos_WHERE_id :: "int \<Rightarrow> database \<Rightarrow> partidos_row option" where
  "SELECT_partidos_WHERE_id i db = find (\<lambda>r. partidos_id r = i) (partidos db)"

subsection \<open>The connection\<close>

text \<open>\<^verbatim>\<open>get_db\<close> opens a connection for the request and closes it in its \<^verbatim>\<open>finally\<close>
  clause, whether the handler returned or raised. The connection runs in the default
  transaction mode of \<^verbatim>\<open>sqlite3\<close>: an INSERT, UPDATE or DELETE opens a transaction,
  \<^verbatim>\<open>commit()\<close> makes its writes durable, and \<^verbatim>\<open>close()\<close> discards what was not committed.
  A statement that raises leaves the uncommitted database as it was.\<close>

record connection =
  committed :: database
  uncommitted :: database

definition connect :: "database \<Rightarrow> connection" where
  "connect db = \<lparr>committed = db, uncommitted = db\<rparr>"

definition commit :: "connection \<Rightarrow> connection" where
  "commit conn = conn\<lparr>committed := uncommitted conn\<rparr>"

definition close :: "connection \<Rightarrow> database" where
  "close conn = committed conn"

definition execute ::
  "(database \<Rightarrow> exn + database \<times> 'a) \<Rightarrow> connection \<Rightarrow> exn + connection \<times> 'a" where
  "execute stmt conn =
     (case stmt (uncommitted conn) of
        Inl e \<Rightarrow> Inl e
      | Inr (db', r) \<Rightarrow> Inr (conn\<lparr>uncommitted := db'\<rparr>, r))"

definition get_db :: "(connection \<Rightarrow> 'a \<times> connection) \<Rightarrow> database \<Rightarrow> 'a \<times> database" where
  "get_db handler db = (case handler (connect db) of (r, conn) \<Rightarrow> (r, close conn))"

subsection \<open>Rows to response models\<close>

text \<open>\<^verbatim>\<open>Model(**row)\<close>: the fields of the model are read from the row, a column the model
  does not declare is ignored, and \<^verbatim>\<open>row = None\<close> raises \<^verbatim>\<open>TypeError\<close>.\<close>

definition Usuario_of :: "usuarios_row \<Rightarrow> Usuario" where
  "Usuario_of r =
     \<lparr>Usuario_nombre = usuarios_nombre r, Usuario_nickname = usuarios_nickname r,
      Usuario_email = usuarios_email r, Usuario_id = usuarios_id r,
      Usuario_fecha_reg = usuarios_fecha_reg r\<rparr>"

definition Equipo_of :: "equipos_row \<Rightarrow> Equipo" where
  "Equipo_of r =
     \<lparr>Equipo_nombre = equipos_nombre r, Equipo_id_capitan = equipos_id_capitan r,
      Equipo_id = equipos_id r\<rparr>"

definition Miembro_of :: "miembros_equipo_row \<Rightarrow> Miembro" where
  "Miembro_of r =
     \<lparr>Miembro_id_equipo = miembros_equipo_id_equipo r,
      Miembro_id_usuario = miembros_equipo_id_usuario r, Miembro_rol = miembros_equipo_rol r,
      Miembro_id = miembros_equipo_id r\<rparr>"

definition Torneo_of :: "torneos_row \<Rightarrow> Torneo" where
  "Torneo_of r =
     \<lparr>Torneo_nombre = torneos_nombre r, Torneo_descripcion = torneos_descripcion r,
      Torneo_fecha_inicio = torneos_fecha_inicio r, Torneo_fecha_fin = torneos_fecha_fin r,
      Torneo_max_equipos = torneos_max_equipos r, Torneo_estado = Some (torneos_estado r),
      Torneo_id = torneos_id r\<rparr>"

definition Inscripcion_of :: "inscripciones_row \<Rightarrow> Inscripcion" where
  "Inscripcion_of r =
     \<lparr>Inscripcion_id_equipo = inscripciones_id_equipo r,
      Inscripcion_id_torneo = inscripciones_id_torneo r, Inscripcion_id = inscripciones_id r,
      Inscripcion_fecha_inscripcion = inscripciones_fecha_inscripcion r\<rparr>"

definition Pago_of :: "pagos_row \<Rightarrow> Pago" where
  "Pago_of r =
     \<lparr>Pago_id_equipo = pagos_id_equipo r, Pago_id_torneo = pagos_id_torneo r,
      Pago_monto_cent = pagos_monto_cent r, Pago_estado = Some (pagos_estado r),
      Pago_id = pagos_id r, Pago_fecha_pago = pagos_fecha_pago r\<rparr>"

definition Partido_of :: "partidos_row \<Rightarrow> Partido" where
  "Partido_of r =
     \<lparr>Partido_id_torneo = partidos_id_torneo r, Partido_equipo_local = partidos_equipo_local r,
      Partido_equipo_visitante = partidos_equipo_visitante r, Partido_fecha = partidos_fecha r,
      Partido_resultado_local = partidos_resultado_local r,
      Partido_resultado_visitante = partidos_resultado_visitante r,
      Partido_id = partidos_id r\<rparr>"

definition from_row :: "('r \<Rightarrow> 'm) \<Rightarrow> 'r option \<Rightarrow> exn + 'm" where
  "from_row model row = (case row of None \<Rightarrow> Inl TypeError | Some r \<Rightarrow> Inr (model r))"

subsection \<open>Handlers: usuarios\<close>

definition create_user ::
  "string \<Rightarrow> UsuarioCreate \<Rightarrow> connection \<Rightarrow> (exn + Usuario) \<times> connection" where
  "create_user now u db =
     (case execute (INSERT_usuarios now (Usuario_nombre u) (Usuario_nickname u)
                      (Usuario_email u) (Usuario_pwd_hash u)) db of
        Inl e \<Rightarrow>
          (if e = IntegrityError then (Inl (HTTPException HTTP_400_BAD_REQUEST), db)
           else (Inl e, db))
      | Inr (db1, lastrowid) \<Rightarrow>
          let db2 = commit db1 in
          (from_row Usuario_of (SELECT_usuarios_WHERE_id lastrowid (uncommitted db2)), db2))"

definition list_users :: "connection \<Rightarrow> (exn + Usuario list) \<times> connection" where
  "list_users db = (Inr (map Usuario_of (usuarios (uncommitted db))), db)"

definition get_user :: "int \<Rightarrow> connection \<Rightarrow> (exn + Usuario) \<times> connection" where
  "get_user user_id db =
     (case SELECT_usuarios_WHERE_id user_id (uncommitted db) of
        None \<Rightarrow> (Inl (HTTPException HTTP_404_NOT_FOUND), db)
      | Some row \<Rightarrow> (Inr (Usuario_of row), db))"

definition update_user ::
  "int \<Rightarrow> UsuarioBase \<Rightarrow> connection \<Rightarrow> (exn + Usuario) \<times> connection" where
  "update_user user_id u db =
     (case execute (UPDATE_usuarios (Usuario_nombre u) (Usuario_nickname u) (Usuario_email u)
                      user_id) db of
        Inl e \<Rightarrow> (Inl e, db)
      | Inr (db1, rowcount) \<Rightarrow>
          if rowcount = 0 then (Inl (HTTPException HTTP_404_NOT_FOUND), db1)
          else
            let db2 = commit db1 in
            (from_row Usuario_of (SELECT_usuarios_WHERE_id user_id (uncommitted db2)), db2))"

definition delete_user :: "int \<Rightarrow> connection \<Rightarrow> (exn + unit) \<times> connection" where
  "delete_user user_id db =
     (case execute (DELETE_usuarios user_id) db of
        Inl e \<Rightarrow> (Inl e, db)
      | Inr (db1, rowcount) \<Rightarrow>
          if rowcount = 0 then (Inl (HTTPException HTTP_404_NOT_FOUND), db1)
          else (Inr (), commit db1))"

subsection \<open>Handlers: equipos\<close>

definition create_team ::
  "EquipoCreate \<Rightarrow> connection \<Rightarrow> (exn + Equipo) \<times> connection" where
  "create_team t db =
     (case execute (INSERT_equipos (Equipo_nombre t) (Equipo_id_capitan t)) db of
        Inl e \<Rightarrow>
          (if e = IntegrityError then (Inl (HTTPException HTTP_400_BAD_REQUEST), db)
           else (Inl e, db))
      | Inr (db1, lastrowid) \<Rightarrow>
          let db2 = commit db1 in
          (from_row Equipo_of (SELECT_equipos_WHERE_id lastrowid (uncommitted db2)), db2))"

definition list_teams :: "connection \<Rightarrow> (exn + Equipo list) \<times> connection" where
  "list_teams db = (Inr (map Equipo_of (equipos (uncommitted db))), db)"

definition get_team :: "int \<Rightarrow> connection \<Rightarrow> (exn + Equipo) \<times> connection" where
  "get_team team_id db =
     (case SELECT_equipos_WHERE_id team_id (uncommitted db) of
        None \<Rightarrow> (Inl (HTTPException HTTP_404_NOT_FOUND), db)
      | Some row \<Rightarrow> (Inr (Equipo_of row), db))"

definition update_team ::
  "int \<Rightarrow> EquipoBase \<Rightarrow> connection \<Rightarrow> (exn + Equipo) \<times> connection" where
  "update_team team_id t db =
     (case execute (UPDATE_equipos (Equipo_nombre t) (Equipo_id_capitan t) team_id) db of
        Inl e \<Rightarrow> (Inl e, db)
      | Inr (db1, rowcount) \<Rightarrow>
          if rowcount = 0 then (Inl (HTTPException HTTP_404_NOT_FOUND), db1)
          else
            let db2 = commit db1 in
            (from_row Equipo_of (SELECT_equipos_WHERE_id team_id (uncommitted db2)), db2))"

definition delete_team :: "int \<Rightarrow> connection \<Rightarrow> (exn + unit) \<times> connection" where
  "delete_team team_id db =
     (case execute (DELETE_equipos team_id) db of
        Inl e \<Rightarrow> (Inl e, db)
      | Inr (db1, rowcount) \<Rightarrow>
          if rowcount = 0 then (Inl (HTTPException HTTP_404_NOT_FOUND), db1)
          else (Inr (), commit db1))"

subsection \<open>Handlers: miembros de equipo\<close>

definition add_member ::
  "MiembroCreate \<Rightarrow> connection \<Rightarrow> (exn + Miembro) \<times> connection" where
  "add_member m db =
     (case execute (INSERT_miembros_equipo (Miembro_id_equipo m) (Miembro_id_usuario m)
                      (Miembro_rol m)) db of
        Inl e \<Rightarrow>
          (if e = IntegrityError then (Inl (HTTPException HTTP_400_BAD_REQUEST), db)
           else (Inl e, db))
      | Inr (db1, lastrowid) \<Rightarrow>
          let db2 = commit db1 in
          (from_row Miembro_of (SELECT_miembros_equipo_WHERE_id lastrowid (uncommitted db2)),
           db2))"

definition list_members :: "connection \<Rightarrow> (exn + Miembro list) \<times> connection" where
  "list_members db = (Inr (map Miembro_of (miembros_equipo (uncommitted db))), db)"

definition delete_member :: "int \<Rightarrow> connection \<Rightarrow> (exn + unit) \<times> connection" where
  "delete_member member_id db =
     (case execute (DELETE_miembros_equipo member_id) db of
        Inl e \<Rightarrow> (Inl e, db)
      | Inr (db1, rowcount) \<Rightarrow>
          if rowcount = 0 then (Inl (HTTPException HTTP_404_NOT_FOUND), db1)
          else (Inr (), commit db1))"

subsection \<open>Handlers: torneos\<close>

text \<open>\<^verbatim>\<open>create_tournament\<close> has no \<^verbatim>\<open>try\<close> around its INSERT.\<close>

definition create_tournament ::
  "TorneoCreate \<Rightarrow> connection \<Rightarrow> (exn + Torneo) \<times> connection" where
  "create_tournament t db =
     (case execute (INSERT_torneos (Torneo_nombre t) (Torneo_descripcion t)
                      (Torneo_fecha_inicio t) (Torneo_fecha_fin t) (Torneo_max_equipos t)
                      (Torneo_estado t)) db of
        Inl e \<Rightarrow> (Inl e, db)
      | Inr (db1, lastrowid) \<Rightarrow>
          let db2 = commit db1 in
          (from_row Torneo_of (SELECT_torneos_WHERE_id lastrowid (uncommitted db2)), db2))"

definition list_tournaments :: "connection \<Rightarrow> (exn + Torneo list) \<times> connection" where
  "list_tournaments db = (Inr (map Torneo_of (torneos (uncommitted db))), db)"

definition get_tournament :: "int \<Rightarrow> connection \<Rightarrow> (exn + Torneo) \<times> connection" where
  "get_tournament tournament_id db =
     (case SELECT_torneos_WHERE_id tournament_id (uncommitted db) of
        None \<Rightarrow> (Inl (HTTPException HTTP_404_NOT_FOUND), db)
      | Some row \<Rightarrow> (Inr (Torneo_of row), db))"

definition update_tournament ::
  "int \<Rightarrow> TorneoBase \<Rightarrow> connection \<Rightarrow> (exn + Torneo) \<times> connection" where
  "update_tournament tournament_id t db =
     (case execute (UPDATE_torneos (Torneo_nombre t) (Torneo_descripcion t)
                      (Torneo_fecha_inicio t) (Torneo_fecha_fin t) (Torneo_max_equipos t)
                      (Torneo_estado t) tournament_id) db of
        Inl e \<Rightarrow> (Inl e, db)
      | Inr (db1, rowcount) \<Rightarrow>
          if rowcount = 0 then (Inl (HTTPException HTTP_404_NOT_FOUND), db1)
          else
            let db2 = commit db1 in
            (from_row Torneo_of (SELECT_torneos_WHERE_id tournament_id (uncommitted db2)),
             db2))"

definition delete_tournament :: "int \<Rightarrow> connection \<Rightarrow> (exn + unit) \<times> connection" where
  "delete_tournament tournament_id db =
     (case execute (DELETE_torneos tournament_id) db of
        Inl e \<Rightarrow> (Inl e, db)
      | Inr (db1, rowcount) \<Rightarrow>
          if rowcount = 0 then (Inl (HTTPException HTTP_404_NOT_FOUND), db1)
          else (Inr (), commit db1))"

subsection \<open>Handlers: inscripciones\<close>

definition create_inscription ::
  "string \<Rightarrow> InscripcionCreate \<Rightarrow> connection \<Rightarrow> (exn + Inscripcion) \<times> connection" where
  "create_inscription now i db =
     (case execute (INSERT_inscripciones now (Inscripcion_id_equipo i)
                      (Inscripcion_id_torneo i)) db of
        Inl e \<Rightarrow>
          (if e = IntegrityError then (Inl (HTTPException HTTP_400_BAD_REQUEST), db)
           else (Inl e, db))
      | Inr (db1, lastrowid) \<Rightarrow>
          let db2 = commit db1 in
          (from_row Inscripcion_of (SELECT_inscripciones_WHERE_id lastrowid (uncommitted db2)),
           db2))"

definition list_inscriptions :: "connection \<Rightarrow> (exn + Inscripcion list) \<times> connection" where
  "list_inscriptions db = (Inr (map Inscripcion_of (inscripciones (uncommitted db))), db)"

definition delete_inscription :: "int \<Rightarrow> connection \<Rightarrow> (exn + unit) \<times> connection" where
  "delete_inscription insc_id db =
     (case execute (DELETE_inscripciones insc_id) db of
        Inl e \<Rightarrow> (Inl e, db)
      | Inr (db1, rowcount) \<Rightarrow>
          if rowcount = 0 then (Inl (HTTPException HTTP_404_NOT_FOUND), db1)
          else (Inr (), commit db1))"

subsection \<open>Handlers: pagos\<close>

definition create_payment ::
  "string \<Rightarrow> PagoCreate \<Rightarrow> connection \<Rightarrow> (exn + Pago) \<times> connection" where
  "create_payment now p db =
     (case execute (INSERT_pagos now (Pago_id_equipo p) (Pago_id_torneo p) (Pago_monto_cent p)
                      (Pago_estado p)) db of
        Inl e \<Rightarrow>
          (if e = IntegrityError then (Inl (HTTPException HTTP_400_BAD_REQUEST), db)
           else (Inl e, db))
      | Inr (db1, lastrowid) \<Rightarrow>
          let db2 = commit db1 in
          (from_row Pago_of (SELECT_pagos_WHERE_id lastrowid (uncommitted db2)), db2))"

definition list_payments :: "connection \<Rightarrow> (exn + Pago list) \<times> connection" where
  "list_payments db = (Inr (map Pago_of (pagos (uncommitted db))), db)"

definition delete_payment :: "int \<Rightarrow> connection \<Rightarrow> (exn + unit) \<times> connection" where
  "delete_payment payment_id db =
     (case execute (DELETE_pagos payment_id) db of
        Inl e \<Rightarrow> (Inl e, db)
      | Inr (db1, rowcount) \<Rightarrow>
          if rowcount = 0 then (Inl (HTTPException HTTP_404_NOT_FOUND), db1)
          else (Inr (), commit db1))"

subsection \<open>Handlers: partidos\<close>

definition create_match ::
  "PartidoCreate \<Rightarrow> connection \<Rightarrow> (exn + Partido) \<times> connection" where
  "create_match m db =
     (case execute (INSERT_partidos (Partido_id_torneo m) (Partido_equipo_local m)
                      (Partido_equipo_visitante m) (Partido_fecha m)
                      (Partido_resultado_local m) (Partido_resultado_visitante m)) db of
        Inl e \<Rightarrow>
          (if e = IntegrityError then (Inl (HTTPException HTTP_400_BAD_REQUEST), db)
           else (Inl e, db))
      | Inr (db1, lastrowid) \<Rightarrow>
          let db2 = commit db1 in
          (from_row Partido_of (SELECT_partidos_WHERE_id lastrowid (uncommitted db2)), db2))"

definition list_matches :: "connection \<Rightarrow> (exn + Partido list) \<times> connection" where
  "list_matches db = (Inr (map Partido_of (partidos (uncommitted db))), db)"

definition delete_match :: "int \<Rightarrow> connection \<Rightarrow> (exn + unit) \<times> connection" where
  "delete_match match_id db =
     (case execute (DELETE_partidos match_id) db of
        Inl e \<Rightarrow> (Inl e, db)
      | Inr (db1, rowcount) \<Rightarrow>
          if rowcount = 0 then (Inl (HTTPException HTTP_404_NOT_FOUND), db1)
          else (Inr (), commit db1))"

subsection \<open>The routes\<close>

text \<open>One constructor per route of the application, with the path parameter and the body
  the route declares; one constructor per response model.\<close>

datatype request =
    POST_users UsuarioCreate
  | GET_users
  | GET_users_id int
  | PUT_users_id int UsuarioBase
  | DELETE_users_id int
  | POST_teams EquipoCreate
  | GET_teams
  | GET_teams_id int
  | PUT_teams_id int EquipoBase
  | DELETE_teams_id int
  | POST_members MiembroCreate
  | GET_members
  | DELETE_members_id int
  | POST_tournaments TorneoCreate
  | GET_tournaments
  | GET_tournaments_id int
  | PUT_tournaments_id int TorneoBase
  | DELETE_tournaments_id int
  | POST_inscriptions InscripcionCreate
  | GET_inscriptions
  | DELETE_inscriptions_id int
  | POST_payments PagoCreate
  | GET_payments
  | DELETE_payments_id int
  | POST_matches PartidoCreate
  | GET_matches
  | DELETE_matches_id int

datatype body =
    Usuario_body Usuario
  | Usuario_list "Usuario list"
  | Equipo_body Equipo
  | Equipo_list "Equipo list"
  | Miembro_body Miembro
  | Miembro_list "Miembro list"
  | Torneo_body Torneo
  | Torneo_list "Torneo list"
  | Inscripcion_body Inscripcion
  | Inscripcion_list "Inscripcion list"
  | Pago_body Pago
  | Pago_list "Pago list"
  | Partido_body Partido
  | Partido_list "Partido list"
  | No_content

definition respond ::
  "('a \<Rightarrow> body) \<Rightarrow> (connection \<Rightarrow> (exn + 'a) \<times> connection) \<Rightarrow> database
     \<Rightarrow> (exn + body) \<times> database" where
  "respond model handler db =
     (case get_db handler db of (r, db') \<Rightarrow> (map_sum id model r, db'))"

fun endpoint :: "string \<Rightarrow> request \<Rightarrow> database \<Rightarrow> (exn + body) \<times> database" where
  "endpoint now (POST_users u) = respond Usuario_body (create_user now u)"
| "endpoint now GET_users = respond Usuario_list list_users"
| "endpoint now (GET_users_id user_id) = respond Usuario_body (get_user user_id)"
| "endpoint now (PUT_users_id user_id u) = respond Usuario_body (update_user user_id u)"
| "endpoint now (DELETE_users_id user_id) = respond (\<lambda>_. No_content) (delete_user user_id)"
| "endpoint now (POST_teams t) = respond Equipo_body (create_team t)"
| "endpoint now GET_teams = respond Equipo_list list_teams"
| "endpoint now (GET_teams_id team_id) = respond Equipo_body (get_team team_id)"
| "endpoint now (PUT_teams_id team_id t) = respond Equipo_body (update_team team_id t)"
| "endpoint now (DELETE_teams_id team_id) = respond (\<lambda>_. No_content) (delete_team team_id)"
| "endpoint now (POST_members m) = respond Miembro_body (add_member m)"
| "endpoint now GET_members = respond Miembro_list list_members"
| "endpoint now (DELETE_members_id member_id) =
     respond (\<lambda>_. No_content) (delete_member member_id)"
| "endpoint now (POST_tournaments t) = respond Torneo_body (create_tournament t)"
| "endpoint now GET_tournaments = respond Torneo_list list_tournaments"
| "endpoint now (GET_tournaments_id tournament_id) =
     respond Torneo_body (get_tournament tournament_id)"
| "endpoint now (PUT_tournaments_id tournament_id t) =
     respond Torneo_body (update_tournament tournament_id t)"
| "endpoint now (DELETE_tournaments_id tournament_id) =
     respond (\<lambda>_. No_content) (delete_tournament tournament_id)"
| "endpoint now (POST_inscriptions i) = respond Inscripcion_body (create_inscription now i)"
| "endpoint now GET_inscriptions = respond Inscripcion_list list_inscriptions"
| "endpoint now (DELETE_inscriptions_id insc_id) =
     respond (\<lambda>_. No_content) (delete_inscription insc_id)"
| "endpoint now (POST_payments p) = respond Pago_body (create_payment now p)"
| "endpoint now GET_payments = respond Pago_list list_payments"
| "endpoint now (DELETE_payments_id payment_id) =
     respond (\<lambda>_. No_content) (delete_payment payment_id)"
| "endpoint now (POST_matches m) = respond Partido_body (create_match m)"
| "endpoint now GET_matches = respond Partido_list list_matches"
| "endpoint now (DELETE_matches_id match_id) =
     respond (\<lambda>_. No_content) (delete_match match_id)"


subsection \<open>Notions used by the properties\<close>

text \<open>The responses a client sees over a sequence of requests.\<close>

fun responses :: "database \<Rightarrow> (string \<times> request) list \<Rightarrow> (exn + body) list" where
  "responses db [] = []"
| "responses db ((now, req) # reqs) =
     fst (endpoint now req db) # responses (snd (endpoint now req db)) reqs"



text \<open>Blanking of every stored password hash, and of the one a create-user request carries.\<close>

definition redact :: "database \<Rightarrow> database" where
  "redact db = db\<lparr>usuarios := map (\<lambda>r. r\<lparr>usuarios_pwd_hash := []\<rparr>) (usuarios db)\<rparr>"

fun redact_request :: "request \<Rightarrow> request" where
  "redact_request (POST_users u) = POST_users (u\<lparr>Usuario_pwd_hash := []\<rparr>)"
| "redact_request req = req"



definition sample_database :: database where
  "sample_database =
     \<lparr>usuarios =
        [\<lparr>usuarios_id = 1, usuarios_nombre = ''Juan'', usuarios_nickname = ''jp'',
          usuarios_email = ''juan@example.com'', usuarios_pwd_hash = ''h1'',
          usuarios_fecha_reg = ''2024-06-20 10:00:00''\<rparr>,
         \<lparr>usuarios_id = 2, usuarios_nombre = ''Ana'', usuarios_nickname = ''ana'',
          usuarios_email = ''ana@example.com'', usuarios_pwd_hash = ''h2'',
          usuarios_fecha_reg = ''2024-06-20 10:00:00''\<rparr>],
      equipos =
        [\<lparr>equipos_id = 1, equipos_nombre = ''Leones'', equipos_id_capitan = 1\<rparr>,
         \<lparr>equipos_id = 2, equipos_nombre = ''Tigres'', equipos_id_capitan = 2\<rparr>,
         \<lparr>equipos_id = 3, equipos_nombre = ''Pumas'', equipos_id_capitan = 1\<rparr>],
      miembros_equipo =
        [\<lparr>miembros_equipo_id = 1, miembros_equipo_id_equipo = 1,
          miembros_equipo_id_usuario = 1, miembros_equipo_rol = ''capitan''\<rparr>,
         \<lparr>miembros_equipo_id = 2, miembros_equipo_id_equipo = 3,
          miembros_equipo_id_usuario = 2, miembros_equipo_rol = ''jugador''\<rparr>],
      torneos =
        [\<lparr>torneos_id = 1, torneos_nombre = ''Copa'', torneos_descripcion = None,
          torneos_fecha_inicio = ''2024-07-01'', torneos_fecha_fin = ''2024-07-31'',
          torneos_max_equipos = 16, torneos_estado = ''programado''\<rparr>,
         \<lparr>torneos_id = 2, torneos_nombre = ''Liga'', torneos_descripcion = None,
          torneos_fecha_inicio = ''2024-08-01'', torneos_fecha_fin = ''2024-08-31'',
          torneos_max_equipos = 8, torneos_estado = ''programado''\<rparr>],
      inscripciones =
        [\<lparr>inscripciones_id = 1, inscripciones_id_equipo = 3, inscripciones_id_torneo = 1,
          inscripciones_fecha_inscripcion = ''2024-06-20 10:00:00''\<rparr>,
         \<lparr>inscripciones_id = 2, inscripciones_id_equipo = 1, inscripciones_id_torneo = 2,
          inscripciones_fecha_inscripcion = ''2024-06-20 10:00:00''\<rparr>],
      pagos =
        [\<lparr>pagos_id = 1, pagos_id_equipo = 3, pagos_id_torneo = 1, pagos_monto_cent = 5000,
          pagos_estado = ''pendiente'', pagos_fecha_pago = ''2024-06-20 10:00:00''\<rparr>],
      partidos =
        [\<lparr>partidos_id = 1, partidos_id_torneo = 1, partidos_equipo_local = 1,
          partidos_equipo_visitante = 2, partidos_fecha = ''2024-07-05'',
          partidos_resultado_local = None, partidos_resultado_visitante = None\<rparr>],
      seq_usuarios = 2, seq_equipos = 3, seq_miembros_equipo = 2, seq_torneos = 2,
      seq_inscripciones = 2, seq_pagos = 1, seq_partidos = 1\<rparr>"

section \<open>Auxiliary facts\<close>

subsection \<open>Row identifiers and lookups\<close>

lemma fold_max_ge: "(s::int) \<le> fold max ids s"
  by (induction ids arbitrary: s) (auto intro: order_trans [OF max.cobounded2])

lemma fold_max_mem: "(i::int) \<in> set ids \<Longrightarrow> i \<le> fold max ids s"
proof (induction ids arbitrary: s)
  case Nil
  then show ?case by simp
next
  case (Cons a ids)
  show ?case
  proof (cases "i = a")
    case True
    have "a \<le> max a s" by simp
    also have "\<dots> \<le> fold max ids (max a s)" by (rule fold_max_ge)
    finally show ?thesis using True by simp
  next
    case False
    with Cons show ?thesis by simp
  qed
qed

lemma next_rowid_fresh: "i \<in> set ids \<Longrightarrow> i < next_rowid seq ids"
  using fold_max_mem [of i ids seq] by (simp add: next_rowid_def)

lemma find_snoc:
  "find P (xs @ [x]) =
     (case find P xs of Some y \<Rightarrow> Some y | None \<Rightarrow> if P x then Some x else None)"
  by (induction xs) auto

lemma find_new_row:
  assumes "\<And>r. r \<in> set xs \<Longrightarrow> key r < i" and "key x = i"
  shows "find (\<lambda>r. key r = (i::int)) (xs @ [x]) = Some x"
proof -
  have "find (\<lambda>r. key r = i) xs = None"
    using assms(1) by (fastforce simp: find_None_iff)
  then show ?thesis using assms(2) by (simp add: find_snoc)
qed


subsection \<open>The connection\<close>

lemma from_row_not_http: "from_row model row \<noteq> Inl (HTTPException code)"
  by (simp add: from_row_def split: option.splits)

lemma execute_committed:
  "execute stmt conn = Inr (conn', r) \<Longrightarrow> committed conn' = committed conn"
  by (auto simp: execute_def split: sum.splits)

lemma committed_connect: "committed (connect db) = db"
  by (simp add: connect_def)

lemma respond_http:
  assumes "\<And>conn. handler (connect db) = (Inl (HTTPException code), conn) \<Longrightarrow> committed conn = db"
    and "fst (respond model handler db) = Inl (HTTPException code)"
  shows "snd (respond model handler db) = db"
proof -
  obtain r conn where h: "handler (connect db) = (r, conn)"
    by (cases "handler (connect db)")
  with assms(2) have "map_sum id model r = Inl (HTTPException code)"
    by (simp add: respond_def get_db_def)
  then have "r = Inl (HTTPException code)" by (cases r) auto
  with h assms(1) have "committed conn = db" by simp
  with h show ?thesis by (simp add: respond_def get_db_def close_def)
qed

section \<open>Creating a user: the email must be new\<close>

lemma create_user_duplicate:
  assumes "\<exists>r \<in> set (usuarios db). usuarios_email r = Usuario_email u"
  shows "endpoint now (POST_users u) db = (Inl (HTTPException HTTP_400_BAD_REQUEST), db)"
  using assms
  by (simp add: respond_def get_db_def create_user_def execute_def INSERT_usuarios_def
        connect_def close_def)

lemma create_user_new:
  assumes "\<forall>r \<in> set (usuarios db). usuarios_email r \<noteq> Usuario_email u"
  shows "endpoint now (POST_users u) db =
     (let rowid = next_rowid (seq_usuarios db) (map usuarios_id (usuarios db)) in
      (Inr (Usuario_body
              \<lparr>Usuario_nombre = Usuario_nombre u, Usuario_nickname = Usuario_nickname u,
               Usuario_email = Usuario_email u, Usuario_id = rowid, Usuario_fecha_reg = now\<rparr>),
       db\<lparr>usuarios := usuarios db @
             [\<lparr>usuarios_id = rowid, usuarios_nombre = Usuario_nombre u,
               usuarios_nickname = Usuario_nickname u, usuarios_email = Usuario_email u,
               usuarios_pwd_hash = Usuario_pwd_hash u, usuarios_fecha_reg = now\<rparr>],
           seq_usuarios := rowid\<rparr>))"
proof -
  let ?i = "next_rowid (seq_usuarios db) (map usuarios_id (usuarios db))"
  have f: "find (\<lambda>r. usuarios_id r = ?i) (usuarios db @ [x\<lparr>usuarios_id := ?i\<rparr>])
             = Some (x\<lparr>usuarios_id := ?i\<rparr>)" for x
    by (rule find_new_row) (auto intro: next_rowid_fresh)
  show ?thesis
    using assms
      f [of "\<lparr>usuarios_id = 0, usuarios_nombre = Usuario_nombre u,
              usuarios_nickname = Usuario_nickname u, usuarios_email = Usuario_email u,
              usuarios_pwd_hash = Usuario_pwd_hash u, usuarios_fecha_reg = now\<rparr>"]
    by (simp add: respond_def get_db_def create_user_def execute_def INSERT_usuarios_def
        connect_def close_def commit_def from_row_def SELECT_usuarios_WHERE_id_def Let_def
        Usuario_of_def)
qed

text \<open>
  Claim C5. A create-user request whose email is the email of a stored user is answered
  with the 400 client error and the database is left as it was, so no user row is added.
  A request whose email differs from every stored email succeeds: the response is the
  created user (the fields of the request, the new id and the registration time) and the
  database has gained exactly that row. The second part needs nothing of the payload beyond
  its type, so it holds in particular for every payload that passed shape validation.
\<close>

theorem create_user_email:
  "((\<exists>r \<in> set (usuarios db). usuarios_email r = Usuario_email u) \<longrightarrow>
      endpoint now (POST_users u) db = (Inl (HTTPException HTTP_400_BAD_REQUEST), db))
   \<and> ((\<forall>r \<in> set (usuarios db). usuarios_email r \<noteq> Usuario_email u) \<longrightarrow>
      endpoint now (POST_users u) db =
        (let rowid = next_rowid (seq_usuarios db) (map usuarios_id (usuarios db)) in
         (Inr (Usuario_body
                 \<lparr>Usuario_nombre = Usuario_nombre u, Usuario_nickname = Usuario_nickname u,
                  Usuario_email = Usuario_email u, Usuario_id = rowid,
                  Usuario_fecha_reg = now\<rparr>),
          db\<lparr>usuarios := usuarios db @
                [\<lparr>usuarios_id = rowid, usuarios_nombre = Usuario_nombre u,
                  usuarios_nickname = Usuario_nickname u, usuarios_email = Usuario_email u,
                  usuarios_pwd_hash = Usuario_pwd_hash u, usuarios_fecha_reg = now\<rparr>],
              seq_usuarios := rowid\<rparr>)))"
  using create_user_duplicate [of db u now] create_user_new [of db u now] by blast

theorem create_user_email_witness:
  "endpoint ''2024-06-20 11:00:00''
     (POST_users \<lparr>Usuario_nombre = ''Ana'', Usuario_nickname = ''ana'',
                  Usuario_email = ''ana@example.com'', Usuario_pwd_hash = ''h2''\<rparr>)
     (initialize_database
        \<lparr>usuarios := [\<lparr>usuarios_id = 1, usuarios_nombre = ''Juan'', usuarios_nickname = ''jp'',
                       usuarios_email = ''ana@example.com'', usuarios_pwd_hash = ''h1'',
                       usuarios_fecha_reg = ''2024-06-19 10:00:00''\<rparr>],
         seq_usuarios := 1\<rparr>)
     = (Inl (HTTPException HTTP_400_BAD_REQUEST),
        initialize_database
          \<lparr>usuarios := [\<lparr>usuarios_id = 1, usuarios_nombre = ''Juan'', usuarios_nickname = ''jp'',
                         usuarios_email = ''ana@example.com'', usuarios_pwd_hash = ''h1'',
                         usuarios_fecha_reg = ''2024-06-19 10:00:00''\<rparr>],
           seq_usuarios := 1\<rparr>)
   \<and> fst (endpoint ''2024-06-20 11:00:00''
            (POST_users \<lparr>Usuario_nombre = ''Ana'', Usuario_nickname = ''ana'',
                         Usuario_email = ''ana@example.com'', Usuario_pwd_hash = ''h2''\<rparr>)
            (initialize_database
               \<lparr>usuarios := [\<lparr>usuarios_id = 1, usuarios_nombre = ''Juan'',
                              usuarios_nickname = ''jp'', usuarios_email = ''juan@example.com'',
                              usuarios_pwd_hash = ''h1'',
                              usuarios_fecha_reg = ''2024-06-19 10:00:00''\<rparr>],
                seq_usuarios := 1\<rparr>))
     = Inr (Usuario_body
              \<lparr>Usuario_nombre = ''Ana'', Usuario_nickname = ''ana'',
               Usuario_email = ''ana@example.com'', Usuario_id = 2,
               Usuario_fecha_reg = ''2024-06-20 11:00:00''\<rparr>)"
  using
    create_user_email [of
      "initialize_database
         \<lparr>usuarios := [\<lparr>usuarios_id = 1, usuarios_nombre = ''Juan'', usuarios_nickname = ''jp'',
                        usuarios_email = ''ana@example.com'', usuarios_pwd_hash = ''h1'',
                        usuarios_fecha_reg = ''2024-06-19 10:00:00''\<rparr>],
          seq_usuarios := 1\<rparr>"
      "\<lparr>Usuario_nombre = ''Ana'', Usuario_nickname = ''ana'',
        Usuario_email = ''ana@example.com'', Usuario_pwd_hash = ''h2''\<rparr>"
      "''2024-06-20 11:00:00''"]
    create_user_email [of
      "initialize_database
         \<lparr>usuarios := [\<lparr>usuarios_id = 1, usuarios_nombre = ''Juan'', usuarios_nickname = ''jp'',
                        usuarios_email = ''juan@example.com'', usuarios_pwd_hash = ''h1'',
                        usuarios_fecha_reg = ''2024-06-19 10:00:00''\<rparr>],
          seq_usuarios := 1\<rparr>"
      "\<lparr>Usuario_nombre = ''Ana'', Usuario_nickname = ''ana'',
        Usuario_email = ''ana@example.com'', Usuario_pwd_hash = ''h2''\<rparr>"
      "''2024-06-20 11:00:00''"]
  by (simp add: initialize_database_def next_rowid_def Let_def)

section \<open>An error response leaves the database as it was\<close>

text \<open>Each handler, run on a fresh connection: when it raises an \<^verbatim>\<open>HTTPException\<close>, nothing has
  been committed. The statements themselves are not looked into: a handler commits only
  on the path that returns.\<close>

lemma create_user_http:
  "create_user now u (connect db) = (Inl (HTTPException code), conn) \<Longrightarrow> committed conn = db"
  by (auto simp: create_user_def Let_def from_row_not_http committed_connect
      split: sum.splits prod.splits if_splits dest: execute_committed)

lemma create_team_http:
  "create_team t (connect db) = (Inl (HTTPException code), conn) \<Longrightarrow> committed conn = db"
  by (auto simp: create_team_def Let_def from_row_not_http committed_connect
      split: sum.splits prod.splits if_splits dest: execute_committed)

lemma add_member_http:
  "add_member m (connect db) = (Inl (HTTPException code), conn) \<Longrightarrow> committed conn = db"
  by (auto simp: add_member_def Let_def from_row_not_http committed_connect
      split: sum.splits prod.splits if_splits dest: execute_committed)

lemma create_tournament_http:
  "create_tournament t (connect db) = (Inl (HTTPException code), conn) \<Longrightarrow> committed conn = db"
  by (auto simp: create_tournament_def Let_def from_row_not_http committed_connect
      split: sum.splits prod.splits if_splits dest: execute_committed)

lemma create_inscription_http:
  "create_inscription now i (connect db) = (Inl (HTTPException code), conn) \<Longrightarrow> committed conn = db"
  by (auto simp: create_inscription_def Let_def from_row_not_http committed_connect
      split: sum.splits prod.splits if_splits dest: execute_committed)

lemma create_payment_http:
  "create_payment now p (connect db) = (Inl (HTTPException code), conn) \<Longrightarrow> committed conn = db"
  by (auto simp: create_payment_def Let_def from_row_not_http committed_connect
      split: sum.splits prod.splits if_splits dest: execute_committed)

lemma create_match_http:
  "create_match m (connect db) = (Inl (HTTPException code), conn) \<Longrightarrow> committed conn = db"
  by (auto simp: create_match_def Let_def from_row_not_http committed_connect
      split: sum.splits prod.splits if_splits dest: execute_committed)

lemma update_user_http:
  "update_user i t (connect db) = (Inl (HTTPException code), conn) \<Longrightarrow> committed conn = db"
  by (auto simp: update_user_def Let_def from_row_not_http committed_connect
      split: sum.splits prod.splits if_splits dest: execute_committed)

lemma update_team_http:
  "update_team i t (connect db) = (Inl (HTTPException code), conn) \<Longrightarrow> committed conn = db"
  by (auto simp: update_team_def Let_def from_row_not_http committed_connect
      split: sum.splits prod.splits if_splits dest: execute_committed)

lemma update_tournament_http:
  "update_tournament i t (connect db) = (Inl (HTTPException code), conn) \<Longrightarrow> committed conn = db"
  by (auto simp: update_tournament_def Let_def from_row_not_http committed_connect
      split: sum.splits prod.splits if_splits dest: execute_committed)

lemma delete_user_http:
  "delete_user i (connect db) = (Inl (HTTPException code), conn) \<Longrightarrow> committed conn = db"
  by (auto simp: delete_user_def committed_connect
      split: sum.splits prod.splits if_splits dest: execute_committed)

lemma delete_team_http:
  "delete_team i (connect db) = (Inl (HTTPException code), conn) \<Longrightarrow> committed conn = db"
  by (auto simp: delete_team_def committed_connect
      split: sum.splits prod.splits if_splits dest: execute_committed)

lemma delete_member_http:
  "delete_member i (connect db) = (Inl (HTTPException code), conn) \<Longrightarrow> committed conn = db"
  by (auto simp: delete_member_def committed_connect
      split: sum.splits prod.splits if_splits dest: execute_committed)

lemma delete_tournament_http:
  "delete_tournament i (connect db) = (Inl (HTTPException code), conn) \<Longrightarrow> committed conn = db"
  by (auto simp: delete_tournament_def committed_connect
      split: sum.splits prod.splits if_splits dest: execute_committed)

lemma delete_inscription_http:
  "delete_inscription i (connect db) = (Inl (HTTPException code), conn) \<Longrightarrow> committed conn = db"
  by (auto simp: delete_inscription_def committed_connect
      split: sum.splits prod.splits if_splits dest: execute_committed)

lemma delete_payment_http:
  "delete_payment i (connect db) = (Inl (HTTPException code), conn) \<Longrightarrow> committed conn = db"
  by (auto simp: delete_payment_def committed_connect
      split: sum.splits prod.splits if_splits dest: execute_committed)

lemma delete_match_http:
  "delete_match i (connect db) = (Inl (HTTPException code), conn) \<Longrightarrow> committed conn = db"
  by (auto simp: delete_match_def committed_connect
      split: sum.splits prod.splits if_splits dest: execute_committed)

lemma get_user_http:
  "get_user i (connect db) = (Inl (HTTPException code), conn) \<Longrightarrow> committed conn = db"
  by (auto simp: get_user_def committed_connect split: option.splits)

lemma get_team_http:
  "get_team i (connect db) = (Inl (HTTPException code), conn) \<Longrightarrow> committed conn = db"
  by (auto simp: get_team_def committed_connect split: option.splits)

lemma get_tournament_http:
  "get_tournament i (connect db) = (Inl (HTTPException code), conn) \<Longrightarrow> committed conn = db"
  by (auto simp: get_tournament_def committed_connect split: option.splits)

lemma list_users_http:
  "list_users (connect db) = (Inl (HTTPException code), conn) \<Longrightarrow> committed conn = db"
  by (simp add: list_users_def)

lemma list_teams_http:
  "list_teams (connect db) = (Inl (HTTPException code), conn) \<Longrightarrow> committed conn = db"
  by (simp add: list_teams_def)

lemma list_members_http:
  "list_members (connect db) = (Inl (HTTPException code), conn) \<Longrightarrow> committed conn = db"
  by (simp add: list_members_def)

lemma list_tournaments_http:
  "list_tournaments (connect db) = (Inl (HTTPException code), conn) \<Longrightarrow> committed conn = db"
  by (simp add: list_tournaments_def)

lemma list_inscriptions_http:
  "list_inscriptions (connect db) = (Inl (HTTPException code), conn) \<Longrightarrow> committed conn = db"
  by (simp add: list_inscriptions_def)

lemma list_payments_http:
  "list_payments (connect db) = (Inl (HTTPException code), conn) \<Longrightarrow> committed conn = db"
  by (simp add: list_payments_def)

lemma list_matches_http:
  "list_matches (connect db) = (Inl (HTTPException code), conn) \<Longrightarrow> committed conn = db"
  by (simp add: list_matches_def)

text \<open>
  Claim C10. Whenever an endpoint answers with an \<^verbatim>\<open>HTTPException\<close> (the 400 of a caught constraint violation, the 404 of a missing id), the
  database after the request is the database before it: the handler raised before
  \<^verbatim>\<open>commit\<close>, and \<^verbatim>\<open>get_db\<close> closed the connection, which drops the uncommitted writes.
\<close>

theorem error_leaves_database:
  assumes "fst (endpoint now req db) = Inl (HTTPException code)"
  shows "snd (endpoint now req db) = db"
proof (cases req)
  case (POST_users u)
  with assms show ?thesis
    by (auto intro: respond_http create_user_http)
next
  case GET_users
  with assms show ?thesis
    by (auto intro: respond_http list_users_http)
next
  case (GET_users_id i)
  with assms show ?thesis
    by (auto intro: respond_http get_user_http)
next
  case (PUT_users_id i u)
  with assms show ?thesis
    by (auto intro: respond_http update_user_http)
next
  case (DELETE_users_id i)
  with assms show ?thesis
    by (auto intro: respond_http delete_user_http)
next
  case (POST_teams t)
  with assms show ?thesis
    by (auto intro: respond_http create_team_http)
next
  case GET_teams
  with assms show ?thesis
    by (auto intro: respond_http list_teams_http)
next
  case (GET_teams_id i)
  with assms show ?thesis
    by (auto intro: respond_http get_team_http)
next
  case (PUT_teams_id i t)
  with assms show ?thesis
    by (auto intro: respond_http update_team_http)
next
  case (DELETE_teams_id i)
  with assms show ?thesis
    by (auto intro: respond_http delete_team_http)
next
  case (POST_members m)
  with assms show ?thesis
    by (auto intro: respond_http add_member_http)
next
  case GET_members
  with assms show ?thesis
    by (auto intro: respond_http list_members_http)
next
  case (DELETE_members_id i)
  with assms show ?thesis
    by (auto intro: respond_http delete_member_http)
next
  case (POST_tournaments t)
  with assms show ?thesis
    by (auto intro: respond_http create_tournament_http)
next
  case GET_tournaments
  with assms show ?thesis
    by (auto intro: respond_http list_tournaments_http)
next
  case (GET_tournaments_id i)
  with assms show ?thesis
    by (auto intro: respond_http get_tournament_http)
next
  case (PUT_tournaments_id i t)
  with assms show ?thesis
    by (auto intro: respond_http update_tournament_http)
next
  case (DELETE_tournaments_id i)
  with assms show ?thesis
    by (auto intro: respond_http delete_tournament_http)
next
  case (POST_inscriptions x)
  with assms show ?thesis
    by (auto intro: respond_http create_inscription_http)
next
  case GET_inscriptions
  with assms show ?thesis
    by (auto intro: respond_http list_inscriptions_http)
next
  case (DELETE_inscriptions_id i)
  with assms show ?thesis
    by (auto intro: respond_http delete_inscription_http)
next
  case (POST_payments p)
  with assms show ?thesis
    by (auto intro: respond_http create_payment_http)
next
  case GET_payments
  with assms show ?thesis
    by (auto intro: respond_http list_payments_http)
next
  case (DELETE_payments_id i)
  with assms show ?thesis
    by (auto intro: respond_http delete_payment_http)
next
  case (POST_matches m)
  with assms show ?thesis
    by (auto intro: respond_http create_match_http)
next
  case GET_matches
  with assms show ?thesis
    by (auto intro: respond_http list_matches_http)
next
  case (DELETE_matches_id i)
  with assms show ?thesis
    by (auto intro: respond_http delete_match_http)
qed

theorem error_leaves_database_witness:
  "endpoint ''2024-06-21 09:00:00''
     (POST_users \<lparr>Usuario_nombre = ''Juana'', Usuario_nickname = ''jj'',
                  Usuario_email = ''juan@example.com'', Usuario_pwd_hash = ''h3''\<rparr>)
     sample_database
     = (Inl (HTTPException HTTP_400_BAD_REQUEST), sample_database)
   \<and> endpoint ''2024-06-21 09:00:00''
       (POST_matches \<lparr>Partido_id_torneo = 1, Partido_equipo_local = 3,
                      Partido_equipo_visitante = 3, Partido_fecha = ''2024-07-06'',
                      Partido_resultado_local = None, Partido_resultado_visitante = None\<rparr>)
       sample_database
     = (Inl (HTTPException HTTP_400_BAD_REQUEST), sample_database)
   \<and> endpoint ''2024-06-21 09:00:00'' (DELETE_users_id 99) sample_database
     = (Inl (HTTPException HTTP_404_NOT_FOUND), sample_database)
   \<and> endpoint ''2024-06-21 09:00:00''
       (PUT_teams_id 99 \<lparr>Equipo_nombre = ''Osos'', Equipo_id_capitan = 1\<rparr>) sample_database
     = (Inl (HTTPException HTTP_404_NOT_FOUND), sample_database)
   \<and> endpoint ''2024-06-21 09:00:00'' (GET_tournaments_id 99) sample_database
     = (Inl (HTTPException HTTP_404_NOT_FOUND), sample_database)"
proof -
  have a: "fst (endpoint ''2024-06-21 09:00:00''
     (POST_users \<lparr>Usuario_nombre = ''Juana'', Usuario_nickname = ''jj'',
                  Usuario_email = ''juan@example.com'', Usuario_pwd_hash = ''h3''\<rparr>)
     sample_database) = Inl (HTTPException HTTP_400_BAD_REQUEST)"
    by code_simp
  have b: "fst (endpoint ''2024-06-21 09:00:00''
       (POST_matches \<lparr>Partido_id_torneo = 1, Partido_equipo_local = 3,
                      Partido_equipo_visitante = 3, Partido_fecha = ''2024-07-06'',
                      Partido_resultado_local = None, Partido_resultado_visitante = None\<rparr>)
       sample_database) = Inl (HTTPException HTTP_400_BAD_REQUEST)"
    by code_simp
  have c: "fst (endpoint ''2024-06-21 09:00:00'' (DELETE_users_id 99) sample_database)
     = Inl (HTTPException HTTP_404_NOT_FOUND)"
    by code_simp
  have d: "fst (endpoint ''2024-06-21 09:00:00''
       (PUT_teams_id 99 \<lparr>Equipo_nombre = ''Osos'', Equipo_id_capitan = 1\<rparr>) sample_database)
     = Inl (HTTPException HTTP_404_NOT_FOUND)"
    by code_simp
  have e: "fst (endpoint ''2024-06-21 09:00:00'' (GET_tournaments_id 99) sample_database)
     = Inl (HTTPException HTTP_404_NOT_FOUND)"
    by code_simp
  from error_leaves_database [OF a] error_leaves_database [OF b] error_leaves_database [OF c]
    error_leaves_database [OF d] error_leaves_database [OF e] a b c d e
  show ?thesis by (simp add: prod_eq_iff)
qed

section \<open>Deleting a tournament and deleting a team\<close>


lemma delete_tournament_present:
  assumes "\<exists>t \<in> set (torneos db). torneos_id t = i"
  shows "endpoint now (DELETE_tournaments_id i) db =
     (Inr No_content,
      db\<lparr>torneos := filter (\<lambda>t. torneos_id t \<noteq> i) (torneos db),
         inscripciones := filter (\<lambda>x. inscripciones_id_torneo x \<noteq> i) (inscripciones db),
         pagos := filter (\<lambda>p. pagos_id_torneo p \<noteq> i) (pagos db),
         partidos := filter (\<lambda>p. partidos_id_torneo p \<noteq> i) (partidos db)\<rparr>)"
  using assms
  by (simp add: respond_def get_db_def delete_tournament_def execute_def DELETE_torneos_def
      connect_def close_def commit_def filter_empty_conv)

text \<open>
  Claim C3. For a tournament id present in the database, delete-tournament succeeds (204, no
  content) and the database it leaves has lost exactly the tournament row and the
  enrollments, payments and matches of that tournament: each of the four tables keeps, in
  order, the rows of the other tournaments, and the users, teams and memberships are the
  same as before.
\<close>

theorem delete_tournament_cascade:
  assumes "\<exists>t \<in> set (torneos db). torneos_id t = tournament_id"
  shows "fst (endpoint now (DELETE_tournaments_id tournament_id) db) = Inr No_content
    \<and> (let db' = snd (endpoint now (DELETE_tournaments_id tournament_id) db) in
         torneos db' = filter (\<lambda>t. torneos_id t \<noteq> tournament_id) (torneos db)
       \<and> inscripciones db' =
           filter (\<lambda>x. inscripciones_id_torneo x \<noteq> tournament_id) (inscripciones db)
       \<and> pagos db' = filter (\<lambda>p. pagos_id_torneo p \<noteq> tournament_id) (pagos db)
       \<and> partidos db' = filter (\<lambda>p. partidos_id_torneo p \<noteq> tournament_id) (partidos db)
       \<and> usuarios db' = usuarios db
       \<and> equipos db' = equipos db
       \<and> miembros_equipo db' = miembros_equipo db)"
  using delete_tournament_present [OF assms, of now] by simp

theorem delete_tournament_cascade_witness:
  "(\<exists>t \<in> set (torneos sample_database). torneos_id t = 1)
   \<and> fst (endpoint ''2024-06-21 09:00:00'' (DELETE_tournaments_id 1) sample_database)
       = Inr No_content
   \<and> map torneos_id
       (torneos (snd (endpoint ''2024-06-21 09:00:00'' (DELETE_tournaments_id 1)
                        sample_database))) = [2]
   \<and> map inscripciones_id
       (inscripciones (snd (endpoint ''2024-06-21 09:00:00'' (DELETE_tournaments_id 1)
                              sample_database))) = [2]
   \<and> pagos (snd (endpoint ''2024-06-21 09:00:00'' (DELETE_tournaments_id 1)
                    sample_database)) = []
   \<and> partidos (snd (endpoint ''2024-06-21 09:00:00'' (DELETE_tournaments_id 1)
                       sample_database)) = []
   \<and> equipos (snd (endpoint ''2024-06-21 09:00:00'' (DELETE_tournaments_id 1)
                      sample_database)) = equipos sample_database"
proof -
  have h: "\<exists>t \<in> set (torneos sample_database). torneos_id t = 1"
    by (simp add: sample_database_def)
  from delete_tournament_cascade [OF h, of "''2024-06-21 09:00:00''"] h
  show ?thesis by (simp add: Let_def sample_database_def)
qed

lemma delete_team_restricted:
  assumes "\<exists>p \<in> set (partidos db).
             partidos_equipo_local p = i \<or> partidos_equipo_visitante p = i"
  shows "endpoint now (DELETE_teams_id i) db =
     (Inl (if \<exists>e \<in> set (equipos db). equipos_id e = i then IntegrityError
           else HTTPException HTTP_404_NOT_FOUND), db)"
  using assms
  by (simp add: respond_def get_db_def delete_team_def execute_def DELETE_equipos_def
      connect_def close_def)

lemma delete_team_free:
  assumes "\<exists>e \<in> set (equipos db). equipos_id e = i"
    and "\<forall>p \<in> set (partidos db).
           partidos_equipo_local p \<noteq> i \<and> partidos_equipo_visitante p \<noteq> i"
  shows "endpoint now (DELETE_teams_id i) db =
     (Inr No_content,
      db\<lparr>equipos := filter (\<lambda>e. equipos_id e \<noteq> i) (equipos db),
         miembros_equipo := filter (\<lambda>m. miembros_equipo_id_equipo m \<noteq> i) (miembros_equipo db),
         inscripciones := filter (\<lambda>x. inscripciones_id_equipo x \<noteq> i) (inscripciones db),
         pagos := filter (\<lambda>p. pagos_id_equipo p \<noteq> i) (pagos db)\<rparr>)"
  using assms
  by (simp add: respond_def get_db_def delete_team_def execute_def DELETE_equipos_def
      connect_def close_def commit_def filter_empty_conv)

text \<open>
  Claim C2. When some match has the team as its home or away team, delete-team on that
  team's id fails and the database is left as it was, so the team row and the matches that
  reference it remain. (The failure is the \<^verbatim>\<open>IntegrityError\<close> of the ON DELETE RESTRICT
  foreign key, which this handler does not catch; were there no team row with that id, it
  would be the 404.) When the team exists and no match references it, delete-team succeeds
  and removes the team row together with the memberships, enrollments and payments of that
  team, and nothing else.
\<close>

theorem delete_team_restrict_cascade:
  "((\<exists>p \<in> set (partidos db).
        partidos_equipo_local p = team_id \<or> partidos_equipo_visitante p = team_id) \<longrightarrow>
      endpoint now (DELETE_teams_id team_id) db =
        (Inl (if \<exists>e \<in> set (equipos db). equipos_id e = team_id then IntegrityError
              else HTTPException HTTP_404_NOT_FOUND), db))
   \<and> ((\<exists>e \<in> set (equipos db). equipos_id e = team_id)
       \<and> (\<forall>p \<in> set (partidos db).
            partidos_equipo_local p \<noteq> team_id \<and> partidos_equipo_visitante p \<noteq> team_id) \<longrightarrow>
      endpoint now (DELETE_teams_id team_id) db =
        (Inr No_content,
         db\<lparr>equipos := filter (\<lambda>e. equipos_id e \<noteq> team_id) (equipos db),
            miembros_equipo :=
              filter (\<lambda>m. miembros_equipo_id_equipo m \<noteq> team_id) (miembros_equipo db),
            inscripciones :=
              filter (\<lambda>x. inscripciones_id_equipo x \<noteq> team_id) (inscripciones db),
            pagos := filter (\<lambda>p. pagos_id_equipo p \<noteq> team_id) (pagos db)\<rparr>))"
  using delete_team_restricted [of db team_id now] delete_team_free [of db team_id now]
  by blast

theorem delete_team_restrict_cascade_witness:
  "(\<exists>p \<in> set (partidos sample_database).
       partidos_equipo_local p = 1 \<or> partidos_equipo_visitante p = 1)
   \<and> endpoint ''2024-06-21 09:00:00'' (DELETE_teams_id 1) sample_database
       = (Inl IntegrityError, sample_database)
   \<and> (\<exists>e \<in> set (equipos sample_database). equipos_id e = 3)
   \<and> \<not> (\<exists>p \<in> set (partidos sample_database).
           partidos_equipo_local p = 3 \<or> partidos_equipo_visitante p = 3)
   \<and> fst (endpoint ''2024-06-21 09:00:00'' (DELETE_teams_id 3) sample_database)
       = Inr No_content
   \<and> map equipos_id
       (equipos (snd (endpoint ''2024-06-21 09:00:00'' (DELETE_teams_id 3) sample_database)))
       = [1, 2]
   \<and> map miembros_equipo_id
       (miembros_equipo
          (snd (endpoint ''2024-06-21 09:00:00'' (DELETE_teams_id 3) sample_database)))
       = [1]
   \<and> map inscripciones_id
       (inscripciones
          (snd (endpoint ''2024-06-21 09:00:00'' (DELETE_teams_id 3) sample_database)))
       = [2]
   \<and> pagos (snd (endpoint ''2024-06-21 09:00:00'' (DELETE_teams_id 3) sample_database)) = []"
proof -
  have h1: "\<exists>p \<in> set (partidos sample_database).
              partidos_equipo_local p = 1 \<or> partidos_equipo_visitante p = 1"
    by (simp add: sample_database_def)
  have h2: "\<exists>e \<in> set (equipos sample_database). equipos_id e = 3"
    by (simp add: sample_database_def)
  have h3: "\<forall>p \<in> set (partidos sample_database).
              partidos_equipo_local p \<noteq> 3 \<and> partidos_equipo_visitante p \<noteq> 3"
    by (simp add: sample_database_def)
  have e1: "\<exists>e \<in> set (equipos sample_database). equipos_id e = 1"
    by (simp add: sample_database_def)
  from delete_team_restrict_cascade [of sample_database 1 "''2024-06-21 09:00:00''"] h1 e1
  have a: "endpoint ''2024-06-21 09:00:00'' (DELETE_teams_id 1) sample_database
             = (Inl IntegrityError, sample_database)"
    by simp
  from delete_team_restrict_cascade [of sample_database 3 "''2024-06-21 09:00:00''"] h2 h3
  have b: "endpoint ''2024-06-21 09:00:00'' (DELETE_teams_id 3) sample_database =
        (Inr No_content,
         sample_database\<lparr>equipos := filter (\<lambda>e. equipos_id e \<noteq> 3) (equipos sample_database),
            miembros_equipo :=
              filter (\<lambda>m. miembros_equipo_id_equipo m \<noteq> 3) (miembros_equipo sample_database),
            inscripciones :=
              filter (\<lambda>x. inscripciones_id_equipo x \<noteq> 3) (inscripciones sample_database),
            pagos := filter (\<lambda>p. pagos_id_equipo p \<noteq> 3) (pagos sample_database)\<rparr>)"
    by blast
  have c: "map equipos_id (filter (\<lambda>e. equipos_id e \<noteq> 3) (equipos sample_database)) = [1, 2]"
    "map miembros_equipo_id
       (filter (\<lambda>m. miembros_equipo_id_equipo m \<noteq> 3) (miembros_equipo sample_database)) = [1]"
    "map inscripciones_id
       (filter (\<lambda>x. inscripciones_id_equipo x \<noteq> 3) (inscripciones sample_database)) = [2]"
    "filter (\<lambda>p. pagos_id_equipo p \<noteq> 3) (pagos sample_database) = []"
    by (simp_all add: sample_database_def)
  from h1 h2 h3 a b c show ?thesis
    by simp
qed

section \<open>What a request can do to the database\<close>


section \<open>A match never has one team on both sides\<close>







section \<open>One captain per team\<close>











section \<open>Primary keys\<close>







section \<open>Get by id\<close>













section \<open>Create, then read\<close>
























section \<open>Constraint violations outside the create handlers\<close>

text \<open>
  Claim C1 says that on every endpoint a constraint violation is answered with the 400
  client error. The create handlers of users, teams, members, enrollments, payments and
  matches do so: their INSERT is inside \<^verbatim>\<open>try ... except sqlite3.IntegrityError\<close>. The
  update and delete handlers (and \<^verbatim>\<open>create_tournament\<close>) execute their statement outside any
  \<^verbatim>\<open>try\<close>, so there the \<^verbatim>\<open>IntegrityError\<close> leaves the handler as it is. In the sample
  database: giving user 2 the email of user 1 (UNIQUE), deleting team 1, which plays a match
  (ON DELETE RESTRICT), and deleting user 1, who captains a team (ON DELETE RESTRICT), each
  end in the uncaught \<^verbatim>\<open>IntegrityError\<close>, while creating a user with the email of user 1
  ends in the 400.
\<close>

theorem constraint_violation_uncaught:
  "fst (endpoint ''2024-06-21 09:00:00''
          (PUT_users_id 2 \<lparr>Usuario_nombre = ''Ana'', Usuario_nickname = ''ana'',
                           Usuario_email = ''juan@example.com''\<rparr>) sample_database)
     = Inl IntegrityError
   \<and> fst (endpoint ''2024-06-21 09:00:00'' (DELETE_teams_id 1) sample_database)
     = Inl IntegrityError
   \<and> fst (endpoint ''2024-06-21 09:00:00'' (DELETE_users_id 1) sample_database)
     = Inl IntegrityError
   \<and> fst (endpoint ''2024-06-21 09:00:00''
            (POST_users \<lparr>Usuario_nombre = ''Ana'', Usuario_nickname = ''ana'',
                         Usuario_email = ''juan@example.com'', Usuario_pwd_hash = ''h3''\<rparr>)
            sample_database)
     = Inl (HTTPException HTTP_400_BAD_REQUEST)"
  by code_simp

section \<open>Password hashes and responses\<close>

text \<open>Blanking the password hashes commutes with every statement and no response
  depends on them.\<close>

lemma redact_tables:
  "usuarios (redact db) = map (\<lambda>r. r\<lparr>usuarios_pwd_hash := []\<rparr>) (usuarios db)"
  "equipos (redact db) = equipos db"
  "miembros_equipo (redact db) = miembros_equipo db"
  "torneos (redact db) = torneos db"
  "inscripciones (redact db) = inscripciones db"
  "pagos (redact db) = pagos db"
  "partidos (redact db) = partidos db"
  by (simp_all add: redact_def)

lemma find_mapped: "find P (map f xs) = map_option f (find (\<lambda>x. P (f x)) xs)"
  by (induction xs) auto

lemma Usuario_of_redact: "Usuario_of (r\<lparr>usuarios_pwd_hash := []\<rparr>) = Usuario_of r"
  by (simp add: Usuario_of_def)

lemma SELECT_usuarios_redact:
  "SELECT_usuarios_WHERE_id i (redact db)
     = map_option (\<lambda>r. r\<lparr>usuarios_pwd_hash := []\<rparr>) (SELECT_usuarios_WHERE_id i db)"
  by (simp add: SELECT_usuarios_WHERE_id_def redact_tables find_mapped)

lemma from_row_Usuario_redact:
  "from_row Usuario_of (SELECT_usuarios_WHERE_id i (redact db))
     = from_row Usuario_of (SELECT_usuarios_WHERE_id i db)"
  by (simp add: SELECT_usuarios_redact from_row_def Usuario_of_redact split: option.splits)

lemma SELECT_equipos_redact:
  "SELECT_equipos_WHERE_id i (redact db) = SELECT_equipos_WHERE_id i db"
  by (simp add: SELECT_equipos_WHERE_id_def redact_tables)

lemma SELECT_miembros_equipo_redact:
  "SELECT_miembros_equipo_WHERE_id i (redact db) = SELECT_miembros_equipo_WHERE_id i db"
  by (simp add: SELECT_miembros_equipo_WHERE_id_def redact_tables)

lemma SELECT_torneos_redact:
  "SELECT_torneos_WHERE_id i (redact db) = SELECT_torneos_WHERE_id i db"
  by (simp add: SELECT_torneos_WHERE_id_def redact_tables)

lemma SELECT_inscripciones_redact:
  "SELECT_inscripciones_WHERE_id i (redact db) = SELECT_inscripciones_WHERE_id i db"
  by (simp add: SELECT_inscripciones_WHERE_id_def redact_tables)

lemma SELECT_pagos_redact:
  "SELECT_pagos_WHERE_id i (redact db) = SELECT_pagos_WHERE_id i db"
  by (simp add: SELECT_pagos_WHERE_id_def redact_tables)

lemma SELECT_partidos_redact:
  "SELECT_partidos_WHERE_id i (redact db) = SELECT_partidos_WHERE_id i db"
  by (simp add: SELECT_partidos_WHERE_id_def redact_tables)

lemma INSERT_usuarios_redact:
  "INSERT_usuarios now a b c [] (redact db)
     = map_sum id (apfst redact) (INSERT_usuarios now a b c p db)"
  by (simp add: INSERT_usuarios_def redact_def Let_def o_def)

lemma UPDATE_usuarios_redact:
  "UPDATE_usuarios a b c i (redact db) = map_sum id (apfst redact) (UPDATE_usuarios a b c i db)"
  by (simp add: UPDATE_usuarios_def redact_def Let_def o_def filter_map
      if_distrib [of "\<lambda>r. r\<lparr>usuarios_pwd_hash := []\<rparr>"])

lemma DELETE_usuarios_redact:
  "DELETE_usuarios i (redact db) = map_sum id (apfst redact) (DELETE_usuarios i db)"
  by (simp add: DELETE_usuarios_def redact_def Let_def o_def filter_map)

lemma INSERT_equipos_redact:
  "INSERT_equipos a c (redact db) = map_sum id (apfst redact) (INSERT_equipos a c db)"
  by (simp add: INSERT_equipos_def redact_def Let_def o_def)

lemma UPDATE_equipos_redact:
  "UPDATE_equipos a c i (redact db) = map_sum id (apfst redact) (UPDATE_equipos a c i db)"
  by (simp add: UPDATE_equipos_def redact_def Let_def o_def)

lemma DELETE_equipos_redact:
  "DELETE_equipos i (redact db) = map_sum id (apfst redact) (DELETE_equipos i db)"
  by (simp add: DELETE_equipos_def redact_def Let_def o_def)

lemma INSERT_miembros_equipo_redact:
  "INSERT_miembros_equipo a b c (redact db) = map_sum id (apfst redact) (INSERT_miembros_equipo a b c db)"
  by (simp add: INSERT_miembros_equipo_def redact_def Let_def o_def)

lemma DELETE_miembros_equipo_redact:
  "DELETE_miembros_equipo i (redact db) = map_sum id (apfst redact) (DELETE_miembros_equipo i db)"
  by (simp add: DELETE_miembros_equipo_def redact_def Let_def o_def)

lemma INSERT_torneos_redact:
  "INSERT_torneos a b c d e f (redact db) = map_sum id (apfst redact) (INSERT_torneos a b c d e f db)"
  by (simp add: INSERT_torneos_def redact_def Let_def o_def split: option.splits)

lemma UPDATE_torneos_redact:
  "UPDATE_torneos a b c d e f i (redact db) = map_sum id (apfst redact) (UPDATE_torneos a b c d e f i db)"
  by (simp add: UPDATE_torneos_def redact_def Let_def o_def split: option.splits)

lemma DELETE_torneos_redact:
  "DELETE_torneos i (redact db) = map_sum id (apfst redact) (DELETE_torneos i db)"
  by (simp add: DELETE_torneos_def redact_def Let_def o_def)

lemma INSERT_inscripciones_redact:
  "INSERT_inscripciones now a b (redact db) = map_sum id (apfst redact) (INSERT_inscripciones now a b db)"
  by (simp add: INSERT_inscripciones_def redact_def Let_def o_def)

lemma DELETE_inscripciones_redact:
  "DELETE_inscripciones i (redact db) = map_sum id (apfst redact) (DELETE_inscripciones i db)"
  by (simp add: DELETE_inscripciones_def redact_def Let_def o_def)

lemma INSERT_pagos_redact:
  "INSERT_pagos now a b c d (redact db) = map_sum id (apfst redact) (INSERT_pagos now a b c d db)"
  by (simp add: INSERT_pagos_def redact_def Let_def o_def split: option.splits)

lemma DELETE_pagos_redact:
  "DELETE_pagos i (redact db) = map_sum id (apfst redact) (DELETE_pagos i db)"
  by (simp add: DELETE_pagos_def redact_def Let_def o_def)

lemma INSERT_partidos_redact:
  "INSERT_partidos a b c d e f (redact db) = map_sum id (apfst redact) (INSERT_partidos a b c d e f db)"
  by (simp add: INSERT_partidos_def redact_def Let_def o_def)

lemma DELETE_partidos_redact:
  "DELETE_partidos i (redact db) = map_sum id (apfst redact) (DELETE_partidos i db)"
  by (simp add: DELETE_partidos_def redact_def Let_def o_def)

lemma endpoint_redact:
  "endpoint now (redact_request req) (redact db)
     = (fst (endpoint now req db), redact (snd (endpoint now req db)))"
proof (cases req)
  case (POST_users u)
  with INSERT_usuarios_redact [of now "Usuario_nombre u" "Usuario_nickname u"
      "Usuario_email u" db "Usuario_pwd_hash u"]
  show ?thesis
    by (cases "INSERT_usuarios now (Usuario_nombre u) (Usuario_nickname u) (Usuario_email u) (Usuario_pwd_hash u) db")
      (auto simp: respond_def get_db_def create_user_def execute_def connect_def close_def
        commit_def Let_def from_row_Usuario_redact)
next
  case GET_users
  then show ?thesis
    by (simp add: respond_def get_db_def list_users_def connect_def close_def redact_tables o_def
        Usuario_of_redact)
next
  case (GET_users_id i)
  then show ?thesis
    by (simp add: respond_def get_db_def get_user_def connect_def close_def SELECT_usuarios_redact
        Usuario_of_redact split: option.splits)
next
  case (PUT_users_id i u)
  then show ?thesis
    by (cases "UPDATE_usuarios (Usuario_nombre u) (Usuario_nickname u) (Usuario_email u) i db")
      (auto simp: respond_def get_db_def update_user_def execute_def connect_def close_def
        commit_def Let_def UPDATE_usuarios_redact from_row_Usuario_redact)
next
  case (DELETE_users_id i)
  then show ?thesis
    by (cases "DELETE_usuarios i db")
      (auto simp: respond_def get_db_def delete_user_def execute_def connect_def close_def
        commit_def Let_def DELETE_usuarios_redact from_row_Usuario_redact)
next
  case (POST_teams t)
  then show ?thesis
    by (cases "INSERT_equipos (Equipo_nombre t) (Equipo_id_capitan t) db")
      (auto simp: respond_def get_db_def create_team_def execute_def connect_def close_def
        commit_def Let_def INSERT_equipos_redact SELECT_equipos_redact)
next
  case GET_teams
  then show ?thesis
    by (simp add: respond_def get_db_def list_teams_def connect_def close_def redact_tables o_def
        Usuario_of_redact)
next
  case (GET_teams_id i)
  then show ?thesis
    by (simp add: respond_def get_db_def get_team_def connect_def close_def SELECT_equipos_redact
        Usuario_of_redact split: option.splits)
next
  case (PUT_teams_id i t)
  then show ?thesis
    by (cases "UPDATE_equipos (Equipo_nombre t) (Equipo_id_capitan t) i db")
      (auto simp: respond_def get_db_def update_team_def execute_def connect_def close_def
        commit_def Let_def UPDATE_equipos_redact SELECT_equipos_redact)
next
  case (DELETE_teams_id i)
  then show ?thesis
    by (cases "DELETE_equipos i db")
      (auto simp: respond_def get_db_def delete_team_def execute_def connect_def close_def
        commit_def Let_def DELETE_equipos_redact SELECT_equipos_redact)
next
  case (POST_members m)
  then show ?thesis
    by (cases "INSERT_miembros_equipo (Miembro_id_equipo m) (Miembro_id_usuario m) (Miembro_rol m) db")
      (auto simp: respond_def get_db_def add_member_def execute_def connect_def close_def
        commit_def Let_def INSERT_miembros_equipo_redact SELECT_miembros_equipo_redact)
next
  case GET_members
  then show ?thesis
    by (simp add: respond_def get_db_def list_members_def connect_def close_def redact_tables o_def
        Usuario_of_redact)
next
  case (DELETE_members_id i)
  then show ?thesis
    by (cases "DELETE_miembros_equipo i db")
      (auto simp: respond_def get_db_def delete_member_def execute_def connect_def close_def
        commit_def Let_def DELETE_miembros_equipo_redact SELECT_miembros_equipo_redact)
next
  case (POST_tournaments t)
  then show ?thesis
    by (cases "INSERT_torneos (Torneo_nombre t) (Torneo_descripcion t) (Torneo_fecha_inicio t) (Torneo_fecha_fin t) (Torneo_max_equipos t) (Torneo_estado t) db")
      (auto simp: respond_def get_db_def create_tournament_def execute_def connect_def close_def
        commit_def Let_def INSERT_torneos_redact SELECT_torneos_redact)
next
  case GET_tournaments
  then show ?thesis
    by (simp add: respond_def get_db_def list_tournaments_def connect_def close_def redact_tables o_def
        Usuario_of_redact)
next
  case (GET_tournaments_id i)
  then show ?thesis
    by (simp add: respond_def get_db_def get_tournament_def connect_def close_def SELECT_torneos_redact
        Usuario_of_redact split: option.splits)
next
  case (PUT_tournaments_id i t)
  then show ?thesis
    by (cases "UPDATE_torneos (Torneo_nombre t) (Torneo_descripcion t) (Torneo_fecha_inicio t) (Torneo_fecha_fin t) (Torneo_max_equipos t) (Torneo_estado t) i db")
      (auto simp: respond_def get_db_def update_tournament_def execute_def connect_def close_def
        commit_def Let_def UPDATE_torneos_redact SELECT_torneos_redact)
next
  case (DELETE_tournaments_id i)
  then show ?thesis
    by (cases "DELETE_torneos i db")
      (auto simp: respond_def get_db_def delete_tournament_def execute_def connect_def close_def
        commit_def Let_def DELETE_torneos_redact SELECT_torneos_redact)
next
  case (POST_inscriptions x)
  then show ?thesis
    by (cases "INSERT_inscripciones now (Inscripcion_id_equipo x) (Inscripcion_id_torneo x) db")
      (auto simp: respond_def get_db_def create_inscription_def execute_def connect_def close_def
        commit_def Let_def INSERT_inscripciones_redact SELECT_inscripciones_redact)
next
  case GET_inscriptions
  then show ?thesis
    by (simp add: respond_def get_db_def list_inscriptions_def connect_def close_def redact_tables o_def
        Usuario_of_redact)
next
  case (DELETE_inscriptions_id i)
  then show ?thesis
    by (cases "DELETE_inscripciones i db")
      (auto simp: respond_def get_db_def delete_inscription_def execute_def connect_def close_def
        commit_def Let_def DELETE_inscripciones_redact SELECT_inscripciones_redact)
next
  case (POST_payments p)
  then show ?thesis
    by (cases "INSERT_pagos now (Pago_id_equipo p) (Pago_id_torneo p) (Pago_monto_cent p) (Pago_estado p) db")
      (auto simp: respond_def get_db_def create_payment_def execute_def connect_def close_def
        commit_def Let_def INSERT_pagos_redact SELECT_pagos_redact)
next
  case GET_payments
  then show ?thesis
    by (simp add: respond_def get_db_def list_payments_def connect_def close_def redact_tables o_def
        Usuario_of_redact)
next
  case (DELETE_payments_id i)
  then show ?thesis
    by (cases "DELETE_pagos i db")
      (auto simp: respond_def get_db_def delete_payment_def execute_def connect_def close_def
        commit_def Let_def DELETE_pagos_redact SELECT_pagos_redact)
next
  case (POST_matches m)
  then show ?thesis
    by (cases "INSERT_partidos (Partido_id_torneo m) (Partido_equipo_local m) (Partido_equipo_visitante m) (Partido_fecha m) (Partido_resultado_local m) (Partido_resultado_visitante m) db")
      (auto simp: respond_def get_db_def create_match_def execute_def connect_def close_def
        commit_def Let_def INSERT_partidos_redact SELECT_partidos_redact)
next
  case GET_matches
  then show ?thesis
    by (simp add: respond_def get_db_def list_matches_def connect_def close_def redact_tables o_def
        Usuario_of_redact)
next
  case (DELETE_matches_id i)
  then show ?thesis
    by (cases "DELETE_partidos i db")
      (auto simp: respond_def get_db_def delete_match_def execute_def connect_def close_def
        commit_def Let_def DELETE_partidos_redact SELECT_partidos_redact)
qed

lemma responses_redact:
  "responses (redact db) (map (apsnd redact_request) reqs) = responses db reqs"
proof (induction reqs arbitrary: db)
  case Nil
  then show ?case by simp
next
  case (Cons a reqs)
  obtain now req where a: "a = (now, req)" by (cases a)
  show ?case
    unfolding a by (simp add: endpoint_redact Cons.IH)
qed

text \<open>
  Claim C9. The response model \<^verbatim>\<open>Usuario\<close> has no \<^verbatim>\<open>pwd_hash\<close> field (the record
  \<^typ>\<open>Usuario\<close> above), and no response discloses a password hash in any other way: two
  sessions that agree on everything but password hashes (the hashes stored in the database
  they start from, and the hashes that their create-user requests carry) receive the same
  responses, request by request, from every route, the user routes create-user,
  list-users, get-user, update-user and delete-user among them.
\<close>

theorem pwd_hash_not_disclosed:
  assumes "redact db1 = redact db2"
    and "map (apsnd redact_request) reqs1 = map (apsnd redact_request) reqs2"
  shows "responses db1 reqs1 = responses db2 reqs2"
proof -
  have "responses db1 reqs1 = responses (redact db1) (map (apsnd redact_request) reqs1)"
    by (simp add: responses_redact)
  also have "\<dots> = responses (redact db2) (map (apsnd redact_request) reqs2)"
    using assms by simp
  also have "\<dots> = responses db2 reqs2"
    by (simp add: responses_redact)
  finally show ?thesis .
qed

theorem pwd_hash_not_disclosed_witness:
  "responses sample_database
     [(''2024-06-21 09:00:00'', GET_users),
      (''2024-06-21 09:01:00'',
       POST_users \<lparr>Usuario_nombre = ''Luz'', Usuario_nickname = ''luz'',
                    Usuario_email = ''luz@example.com'', Usuario_pwd_hash = ''secret-1''\<rparr>),
      (''2024-06-21 09:02:00'', GET_users_id 3),
      (''2024-06-21 09:03:00'',
       PUT_users_id 1 \<lparr>Usuario_nombre = ''Juan'', Usuario_nickname = ''juan'',
                        Usuario_email = ''juan@example.com''\<rparr>)]
   = responses
       (sample_database
          \<lparr>usuarios := map (\<lambda>r. r\<lparr>usuarios_pwd_hash := ''another''\<rparr>)
                          (usuarios sample_database)\<rparr>)
       [(''2024-06-21 09:00:00'', GET_users),
        (''2024-06-21 09:01:00'',
         POST_users \<lparr>Usuario_nombre = ''Luz'', Usuario_nickname = ''luz'',
                      Usuario_email = ''luz@example.com'', Usuario_pwd_hash = ''secret-2''\<rparr>),
        (''2024-06-21 09:02:00'', GET_users_id 3),
        (''2024-06-21 09:03:00'',
         PUT_users_id 1 \<lparr>Usuario_nombre = ''Juan'', Usuario_nickname = ''juan'',
                          Usuario_email = ''juan@example.com''\<rparr>)]
   \<and> map usuarios_pwd_hash (usuarios sample_database) = [''h1'', ''h2'']"
proof -
  have a: "redact sample_database
      = redact (sample_database
          \<lparr>usuarios := map (\<lambda>r. r\<lparr>usuarios_pwd_hash := ''another''\<rparr>)
                          (usuarios sample_database)\<rparr>)"
    by (simp add: redact_def)
  have b: "map (apsnd redact_request)
     [(''2024-06-21 09:00:00'', GET_users),
      (''2024-06-21 09:01:00'',
       POST_users \<lparr>Usuario_nombre = ''Luz'', Usuario_nickname = ''luz'',
                    Usuario_email = ''luz@example.com'', Usuario_pwd_hash = ''secret-1''\<rparr>),
      (''2024-06-21 09:02:00'', GET_users_id 3),
      (''2024-06-21 09:03:00'',
       PUT_users_id 1 \<lparr>Usuario_nombre = ''Juan'', Usuario_nickname = ''juan'',
                        Usuario_email = ''juan@example.com''\<rparr>)]
   = map (apsnd redact_request)
       [(''2024-06-21 09:00:00'', GET_users),
        (''2024-06-21 09:01:00'',
         POST_users \<lparr>Usuario_nombre = ''Luz'', Usuario_nickname = ''luz'',
                      Usuario_email = ''luz@example.com'', Usuario_pwd_hash = ''secret-2''\<rparr>),
        (''2024-06-21 09:02:00'', GET_users_id 3),
        (''2024-06-21 09:03:00'',
         PUT_users_id 1 \<lparr>Usuario_nombre = ''Juan'', Usuario_nickname = ''juan'',
                          Usuario_email = ''juan@example.com''\<rparr>)]"
    by simp
  have c: "map usuarios_pwd_hash (usuarios sample_database) = [''h1'', ''h2'']"
    by (simp add: sample_database_def)
  from pwd_hash_not_disclosed [OF a b] c show ?thesis by simp
qed

end
